theory Spec2Isabelle
  imports Complex_Main "HOL-Library.Word"
begin

unbundle bit_operations_syntax

section \<open>The validation engine of monit (src/validate.c)\<close>

text \<open>
  A shallow embedding of the evaluators of \<^verbatim>\<open>src/validate.c\<close>. C structs are records,
  the singly linked test lists are HOL lists in list order, a NULL pointer to an optional
  descriptor is \<open>None\<close>. A C function that mutates the service through its pointer
  returns the updated value, and the events it hands to \<^verbatim>\<open>Event_post\<close> are returned as a
  list, in posting order. C \<^verbatim>\<open>int\<close>, \<^verbatim>\<open>long\<close> and \<^verbatim>\<open>time_t\<close> values are \<open>int\<close>: none of
  the modelled counters is near its bound, so wrap-around does not occur; the casts of a
  \<^verbatim>\<open>time_t\<close> to \<^verbatim>\<open>int\<close> in \<^verbatim>\<open>check_timestamp\<close> keep the low 32 bits. A C \<^verbatim>\<open>double\<close>
  is the \<open>real\<close> that it denotes. The products and quotients behind the percentage
  comparisons are rounded as the floating point unit rounds them; the response time of a
  connection, which no test compares, is the exact sum. Results of the probes that the C code calls (sockets, ICMP echo, files, the
  child process) are arguments of the modelled function. \<^verbatim>\<open>Event_post\<close> is the event
  sink: a call of it adds one event and does not change the service.
\<close>

subsection \<open>Events\<close>

datatype Event_Kind =
    Event_Nonexist | Event_Invalid | Event_Data | Event_Exec | Event_Timeout
  | Event_Pid | Event_PPid | Event_Fsflag | Event_Icmp | Event_Connection
  | Event_Status | Event_Action | Event_Content | Event_Checksum | Event_Permission
  | Event_Uid | Event_Gid | Event_Size | Event_Timestamp | Event_Uptime | Event_Resource

datatype State = STATE_SUCCEEDED | STATE_FAILED | STATE_CHANGED | STATE_CHANGEDNOT

text \<open>
  The texts of a printf-style call: a string, an integer or floating point argument, or
  \<open>Snprintf fmt args\<close>, the content of a buffer that \<^verbatim>\<open>snprintf\<close> filled from the
  format \<open>fmt\<close> and the arguments \<open>args\<close>. A message is kept as its format and the
  list of its arguments, not rendered.
\<close>

datatype Text = Str string | Int_arg int | Real_arg real | Snprintf string "Text list"

record Action =
  action_id :: int

record EventAction =
  failed :: Action
  succeeded :: Action

text \<open>One call \<^verbatim>\<open>Event_post(s, id, state, action, fmt, ...)\<close>.\<close>

record Event =
  ev_id :: Event_Kind
  ev_state :: State
  ev_action :: EventAction
  ev_fmt :: Text
  ev_args :: "Text list"

definition Event_post :: "Event_Kind \<Rightarrow> State \<Rightarrow> EventAction \<Rightarrow> Text \<Rightarrow> Text list \<Rightarrow> Event" where
  "Event_post k st a fmt args =
     \<lparr>ev_id = k, ev_state = st, ev_action = a, ev_fmt = fmt, ev_args = args\<rparr>"

text \<open>The number of events of one kind in a list of posted events.\<close>

definition count_events :: "Event_Kind \<Rightarrow> Event list \<Rightarrow> nat" where
  "count_events k evs = length (filter (\<lambda>e. ev_id e = k) evs)"

subsection \<open>Operators\<close>

datatype Operator =
    Operator_Less | Operator_LessOrEqual | Operator_Equal
  | Operator_NotEqual | Operator_GreaterOrEqual | Operator_Greater

text \<open>
  Modelled from the spec: \<^verbatim>\<open>Util_evalQExpression\<close> is defined outside \<^verbatim>\<open>validate.c\<close>.
  The spec has it as the quantitative comparison of a measured integer against a limit
  under a relational operator, the operator being one of \<open><\<close>, \<open>\<le>\<close>, \<open>=\<close>, \<open>\<noteq>\<close>,
  \<open>\<ge>\<close>, \<open>>\<close>.
\<close>

fun Util_evalQExpression :: "Operator \<Rightarrow> int \<Rightarrow> int \<Rightarrow> bool" where
  "Util_evalQExpression Operator_Less l r = (l < r)"
| "Util_evalQExpression Operator_LessOrEqual l r = (l \<le> r)"
| "Util_evalQExpression Operator_Equal l r = (l = r)"
| "Util_evalQExpression Operator_NotEqual l r = (l \<noteq> r)"
| "Util_evalQExpression Operator_GreaterOrEqual l r = (l \<ge> r)"
| "Util_evalQExpression Operator_Greater l r = (l > r)"

subsection \<open>Declarations of monit.h\<close>

text \<open>
  \<^verbatim>\<open>validate.c\<close> includes \<^verbatim>\<open>monit.h\<close>, which is not among the sources. The macros and
  tables of it that the modelled functions use are the fields of one record, an argument
  \<open>H\<close> of every function that needs one of them; no property below depends on their
  values.
\<close>

record Monit_h =
  MONITOR_INIT :: "32 word"
  MONITOR_WAITING :: "32 word"
  STRLEN :: nat
  sizeof_hash :: nat
  actionnames :: "int \<Rightarrow> string"
  icmpnames :: "int \<Rightarrow> string"
  operatorshortnames :: "Operator \<Rightarrow> string"

subsection \<open>Test descriptors\<close>

datatype Every_Type = EVERY_CYCLE | EVERY_SKIPCYCLES | EVERY_CRON | EVERY_NOTINCRON

text \<open>
  \<^verbatim>\<open>s->every\<close>: the type and the union \<^verbatim>\<open>spec\<close> of \<^verbatim>\<open>cycle.number\<close>, \<^verbatim>\<open>cycle.counter\<close>
  and the \<^verbatim>\<open>cron\<close> string; the code reads only the member that the type selects.
\<close>

record Every =
  every_type :: Every_Type
  cycle_number :: int
  cycle_counter :: int
  cron :: string

record ActionRate =
  ar_count :: int
  ar_cycle :: int
  ar_action :: EventAction

text \<open>
  A port: \<open>protocol_is_default\<close> is \<^verbatim>\<open>p->protocol->check == check_default\<close>, and
  \<open>port_description\<close> is the text that \<^verbatim>\<open>Util_portDescription\<close> writes for it.
\<close>

record Port =
  retry :: int
  response :: real
  is_available :: bool
  port_action :: EventAction
  protocol_name :: string
  protocol_is_default :: bool
  port_description :: string

record Icmp =
  icmp_type :: int
  icmp_timeout :: int
  icmp_count :: int
  icmp_response :: real
  icmp_is_available :: bool
  icmp_action :: EventAction

text \<open>\<^verbatim>\<open>ICMP_ECHO\<close> of \<^verbatim>\<open>netinet/ip_icmp.h\<close>.\<close>

definition ICMP_ECHO :: int where
  "ICMP_ECHO = 8"

datatype Resource_Id =
    RESOURCE_ID_CPU_PERCENT | RESOURCE_ID_MEM_PERCENT | RESOURCE_ID_MEM_KBYTE
  | RESOURCE_ID_LOAD1 | RESOURCE_ID_LOAD5 | RESOURCE_ID_LOAD15 | RESOURCE_ID_CHILDREN
  | RESOURCE_ID_TOTAL_MEM_KBYTE | RESOURCE_ID_TOTAL_MEM_PERCENT
  | RESOURCE_ID_INODE | RESOURCE_ID_SPACE
  | RESOURCE_ID_CPUUSER | RESOURCE_ID_CPUSYSTEM | RESOURCE_ID_CPUWAIT
  | RESOURCE_ID_TOTAL_CPU_PERCENT | RESOURCE_ID_SWAP_PERCENT | RESOURCE_ID_SWAP_KBYTE

record Resource =
  resource_id :: Resource_Id
  res_operator :: Operator
  res_limit :: int
  res_action :: EventAction

record Filesystem =
  fs_resource :: Resource_Id
  fs_operator :: Operator
  fs_limit_percent :: int
  fs_limit_absolute :: int
  fs_action :: EventAction

record Perm =
  perm_perm :: "32 word"
  perm_action :: EventAction

record Uid =
  uid_uid :: int
  uid_action :: EventAction

record Gid =
  gid_gid :: int
  gid_action :: EventAction

record Size =
  sz_operator :: Operator
  sz_size :: int
  sz_initialized :: bool
  sz_test_changes :: bool
  sz_action :: EventAction

record Timestamp =
  ts_operator :: Operator
  ts_time :: int
  ts_timestamp :: int
  ts_test_changes :: bool
  ts_action :: EventAction

text \<open>The value \<open>HASH_UNKNOWN\<close> is any type that is neither MD5 nor SHA1.\<close>

datatype Hash_Type = HASH_UNKNOWN | HASH_MD5 | HASH_SHA1

record Checksum =
  cs_type :: Hash_Type
  cs_hash :: string
  cs_initialized :: bool
  cs_test_changes :: bool
  cs_action :: EventAction

text \<open>
  A match descriptor: \<open>match_log\<close> is the \<^verbatim>\<open>StringBuffer_T log\<close>, \<open>None\<close> when the
  pointer is NULL. The compiled pattern is in the argument \<open>check_pattern\<close> of the
  functions below.
\<close>

record Match =
  match_not :: bool
  match_string :: string
  match_log :: "string option"
  match_action :: EventAction

record Status =
  st_operator :: Operator
  st_return_value :: int
  st_action :: EventAction

text \<open>
  The child of a program service, as \<^verbatim>\<open>Process_T\<close> shows it to \<^verbatim>\<open>check_program\<close>:
  \<open>exit_status\<close> is what \<^verbatim>\<open>Process_exitStatus\<close> returns now (negative while the child
  runs), \<open>exit_status_killed\<close> what it returns after \<^verbatim>\<open>Process_kill\<close> and
  \<^verbatim>\<open>Process_waitFor\<close>; the two streams hold the bytes not yet read.
\<close>

record Process =
  process_pid :: int
  exit_status :: int
  exit_status_killed :: int
  error_stream :: string
  input_stream :: string

record Program =
  prog_P :: "Process option"
  started :: int
  timeout :: int
  exitStatus :: int

subsection \<open>The info snapshot\<close>

record File_Info =
  st_size :: int
  st_ino :: int
  st_ino_prev :: int
  cs_sum :: string
  readpos :: int

text \<open>\<open>flags_old\<close> is the field \<^verbatim>\<open>_flags\<close>.\<close>

record Filesystem_Info =
  f_files :: int
  f_filesfree :: int
  f_blocks :: int
  f_blocksfree :: int
  f_blocksfreetotal :: int
  flags :: int
  flags_old :: int
  inode_percent :: int
  space_percent :: int
  inode_total :: int
  space_total :: int

text \<open>\<open>pid_old\<close> and \<open>ppid_old\<close> are the fields \<^verbatim>\<open>_pid\<close> and \<^verbatim>\<open>_ppid\<close>.\<close>

record Process_Info =
  pid :: int
  pid_old :: int
  ppid :: int
  ppid_old :: int
  status_flag :: "32 word"
  cpu_percent :: int
  total_cpu_percent :: int
  mem_percent :: int
  mem_kbyte :: int
  total_mem_kbyte :: int
  total_mem_percent :: int
  children :: int
  uptime :: int

text \<open>
  \<^verbatim>\<open>s->inf\<close>. The union \<^verbatim>\<open>priv\<close> is three fields: each validator reads the member of
  its own service type only.
\<close>

record Info =
  st_mode :: "32 word"
  st_uid :: int
  st_gid :: int
  timestamp :: int
  priv_file :: File_Info
  priv_filesystem :: Filesystem_Info
  priv_process :: Process_Info

text \<open>The global \<^verbatim>\<open>systeminfo\<close>; \<open>loadavg\<close> holds the three load averages, each a
  \<^verbatim>\<open>double\<close>.\<close>

record SystemInfo =
  total_cpu_user_percent :: int
  total_cpu_syst_percent :: int
  total_cpu_wait_percent :: int
  sys_total_mem_percent :: int
  sys_total_mem_kbyte :: int
  total_swap_percent :: int
  total_swap_kbyte :: int
  loadavg :: "nat \<Rightarrow> real"

subsection \<open>The service\<close>

datatype Service_Type =
    TYPE_FILESYSTEM | TYPE_DIRECTORY | TYPE_FILE | TYPE_PROCESS
  | TYPE_HOST | TYPE_SYSTEM | TYPE_FIFO | TYPE_PROGRAM

record Service =
  name :: string
  path :: string
  type_s :: Service_Type
  monitor :: "32 word"
  visited :: bool
  every :: Every
  nstart :: int
  ncycle :: int
  actionratelist :: "ActionRate list"
  portlist :: "Port list"
  icmplist :: "Icmp list"
  perm :: "Perm option"
  uid :: "Uid option"
  gid :: "Gid option"
  filesystemlist :: "Filesystem list"
  checksum :: "Checksum option"
  sizelist :: "Size list"
  timestamplist :: "Timestamp list"
  matchlist :: "Match list"
  matchignorelist :: "Match list"
  statuslist :: "Status list"
  program :: Program
  inf :: Info
  action_DATA :: EventAction
  action_EXEC :: EventAction
  action_NONEXIST :: EventAction
  action_PID :: EventAction
  action_PPID :: EventAction
  action_FSFLAG :: EventAction

subsection \<open>check_skip\<close>

text \<open>
  \<^verbatim>\<open>check_skip(s, time)\<close>. The cron evaluator \<^verbatim>\<open>Time_incron\<close> (libmonit) is an argument.
  The result is the returned flag and the service as the call leaves it.
\<close>

definition check_skip ::
  "Monit_h \<Rightarrow> (string \<Rightarrow> int \<Rightarrow> bool) \<Rightarrow> Service \<Rightarrow> int \<Rightarrow> bool \<times> Service" where
  "check_skip H Time_incron s time =
     (if visited s then (True, s)
      else if every_type (every s) = EVERY_SKIPCYCLES then
        (let s1 = s\<lparr>every := (every s)\<lparr>cycle_counter := cycle_counter (every s) + 1\<rparr>\<rparr>
         in if cycle_counter (every s1) < cycle_number (every s1)
            then (True, s1\<lparr>monitor := monitor s1 OR MONITOR_WAITING H\<rparr>)
            else (let s2 = s1\<lparr>every := (every s1)\<lparr>cycle_counter := 0\<rparr>\<rparr>
                  in (False, s2\<lparr>monitor := monitor s2 AND NOT (MONITOR_WAITING H)\<rparr>)))
      else if every_type (every s) = EVERY_CRON \<and> \<not> Time_incron (cron (every s)) time
        then (True, s\<lparr>monitor := monitor s OR MONITOR_WAITING H\<rparr>)
      else if every_type (every s) = EVERY_NOTINCRON \<and> Time_incron (cron (every s)) time
        then (True, s\<lparr>monitor := monitor s OR MONITOR_WAITING H\<rparr>)
      else (False, s\<lparr>monitor := monitor s AND NOT (MONITOR_WAITING H)\<rparr>))"

text \<open>
  Consecutive cycles: \<^verbatim>\<open>check_skip\<close> is called once per cycle with that cycle's time. The
  result lists, per call, the returned flag and the service after the call.
\<close>

fun check_skip_cycles ::
  "Monit_h \<Rightarrow> (string \<Rightarrow> int \<Rightarrow> bool) \<Rightarrow> Service \<Rightarrow> int list \<Rightarrow> (bool \<times> Service) list" where
  "check_skip_cycles H incron s [] = []"
| "check_skip_cycles H incron s (t # ts) =
     (let r = check_skip H incron s t in r # check_skip_cycles H incron (snd r) ts)"

text \<open>
  The flag \<^verbatim>\<open>MONITOR_WAITING\<close> after a call: set when the call returned true (by the
  schedule), cleared when it returned false.
\<close>

definition skip_ok :: "Monit_h \<Rightarrow> bool \<times> Service \<Rightarrow> bool" where
  "skip_ok H r =
     (if fst r then monitor (snd r) AND MONITOR_WAITING H = MONITOR_WAITING H
      else monitor (snd r) AND MONITOR_WAITING H = 0)"

subsection \<open>check_timeout\<close>




subsection \<open>check_connection\<close>

text \<open>
  What the collaborators return during one pass from the label \<^verbatim>\<open>retry\<close>: the two
  readings of \<^verbatim>\<open>gettimeofday\<close>, whether \<^verbatim>\<open>socket_create\<close> returned a socket, whether
  \<^verbatim>\<open>socket_get_type\<close> is \<^verbatim>\<open>SOCK_DGRAM\<close>, the results of \<^verbatim>\<open>socket_is_ready\<close> and of the
  protocol's \<^verbatim>\<open>check\<close>, and the texts of \<^verbatim>\<open>STRERROR\<close> and \<^verbatim>\<open>socket_getError\<close>.
\<close>

record Attempt =
  t1_sec :: int
  t1_usec :: int
  socket_create :: bool
  socket_is_dgram :: bool
  socket_is_ready :: bool
  protocol_check :: bool
  strerror :: string
  socket_getError :: string
  t2_sec :: int
  t2_usec :: int

text \<open>
  One pass from \<^verbatim>\<open>retry\<close> to \<^verbatim>\<open>error\<close>: the new values of \<^verbatim>\<open>rv\<close>, \<^verbatim>\<open>report\<close> and of the
  port. A pass that fails sets \<^verbatim>\<open>rv = FALSE\<close> and writes the report; a pass that succeeds
  stores the response time and leaves \<^verbatim>\<open>rv\<close> and \<^verbatim>\<open>report\<close> as they are.
\<close>

definition connection_attempt :: "Attempt \<Rightarrow> Port \<Rightarrow> bool \<Rightarrow> Text \<Rightarrow> bool \<times> Text \<times> Port" where
  "connection_attempt a p rv report =
     (if \<not> socket_create a then
        (False,
         Snprintf ''failed, cannot open a connection to %s'' [Str (port_description p)], p)
      else if (\<not> socket_is_dgram a \<or> protocol_is_default p) \<and> \<not> socket_is_ready a then
        (False,
         Snprintf ''connection failed, %s is not ready for i|o -- %s''
           [Str (port_description p), Str (strerror a)], p)
      else if \<not> protocol_check a then
        (False,
         Snprintf ''failed protocol test [%s] at %s -- %s''
           [Str (protocol_name p), Str (port_description p), Str (socket_getError a)], p)
      else
        (rv, report,
         p\<lparr>response := real_of_int (t2_sec a - t1_sec a)
                        + real_of_int (t2_usec a - t1_usec a) / 1000000\<rparr>))"

text \<open>The pass by itself succeeds: it reaches the second \<^verbatim>\<open>gettimeofday\<close>.\<close>

definition attempt_succeeds :: "Attempt \<Rightarrow> Port \<Rightarrow> bool" where
  "attempt_succeeds a p \<longleftrightarrow>
     socket_create a
     \<and> \<not> ((\<not> socket_is_dgram a \<or> protocol_is_default p) \<and> \<not> socket_is_ready a)
     \<and> protocol_check a"

text \<open>The result of \<^verbatim>\<open>check_connection\<close>: the port, the posted events, and the number of
  passes made (of calls of \<^verbatim>\<open>socket_create\<close>).\<close>

record Connection_Result =
  cr_port :: Port
  cr_events :: "Event list"
  cr_attempts :: nat

text \<open>
  The body of \<^verbatim>\<open>check_connection\<close> from the label \<^verbatim>\<open>retry\<close> on. \<open>env k\<close> is what the
  collaborators return in pass \<open>k\<close> (counted from 0); \<open>k\<close>, \<open>retry_count\<close>, \<open>rv\<close> and
  \<open>report\<close> are the locals. The C code initialises \<^verbatim>\<open>rv\<close> before the label and does not
  assign \<^verbatim>\<open>TRUE\<close> to it again: its value is carried into the next pass.
\<close>

function check_connection_retry ::
  "(nat \<Rightarrow> Attempt) \<Rightarrow> Service \<Rightarrow> Port \<Rightarrow> nat \<Rightarrow> int \<Rightarrow> bool \<Rightarrow> Text \<Rightarrow> Connection_Result" where
  "check_connection_retry env s p k retry_count rv report =
     (case connection_attempt (env k) p rv report of
        (rv1, report1, p1) \<Rightarrow>
          if \<not> rv1 then
            (if retry_count > 1
             then check_connection_retry env s p1 (Suc k) (retry_count - 1) rv1 report1
             else \<lparr>cr_port = p1\<lparr>response := - 1, is_available := False\<rparr>,
                   cr_events = [Event_post Event_Connection STATE_FAILED (port_action p1)
                                  report1 []],
                   cr_attempts = Suc k\<rparr>)
          else \<lparr>cr_port = p1\<lparr>is_available := True\<rparr>,
                cr_events = [Event_post Event_Connection STATE_SUCCEEDED (port_action p1)
                               (Str ''connection succeeded to %s'')
                               [Str (port_description p1)]],
                cr_attempts = Suc k\<rparr>)"
  by pat_completeness auto
termination
  by (relation "measure (\<lambda>(env, s, p, k, retry_count, rv, report). nat retry_count)") auto

definition check_connection :: "(nat \<Rightarrow> Attempt) \<Rightarrow> Service \<Rightarrow> Port \<Rightarrow> Connection_Result" where
  "check_connection env s p = check_connection_retry env s p 0 (retry p) True (Snprintf [] [])"

declare check_connection_retry.simps [simp del]

text \<open>
  The report that a failing pass writes (it does not depend on the earlier values of
  \<^verbatim>\<open>rv\<close> and \<^verbatim>\<open>report\<close>), and the response time that a succeeding pass stores.
\<close>

definition attempt_report :: "Attempt \<Rightarrow> Port \<Rightarrow> Text" where
  "attempt_report a p = fst (snd (connection_attempt a p False (Snprintf [] [])))"

definition attempt_response :: "Attempt \<Rightarrow> real" where
  "attempt_response a =
     real_of_int (t2_sec a - t1_sec a) + real_of_int (t2_usec a - t1_usec a) / 1000000"

subsection \<open>check_remote_host\<close>

text \<open>
  The loop \<^verbatim>\<open>for (p = s->portlist; p; p = p->next) check_connection(s, p)\<close>. \<open>conn j k\<close> is
  what the collaborators return for the \<open>j\<close>-th port of the list in its pass \<open>k\<close>.
\<close>

fun check_portlist ::
  "(nat \<Rightarrow> nat \<Rightarrow> Attempt) \<Rightarrow> Service \<Rightarrow> Port list \<Rightarrow> nat \<Rightarrow> Port list \<times> Event list" where
  "check_portlist conn s [] j = ([], [])"
| "check_portlist conn s (p # ps) j =
     (let r = check_connection (conn j) s p;
          (ps1, evs) = check_portlist conn s ps (Suc j)
      in (cr_port r # ps1, cr_events r @ evs))"

text \<open>
  The case \<^verbatim>\<open>ICMP_ECHO\<close> of the switch, after the call of \<^verbatim>\<open>icmp_echo\<close> has returned
  \<open>r\<close>: the updated descriptor and the posted events.
\<close>

definition check_icmp_echo :: "Monit_h \<Rightarrow> real \<Rightarrow> Icmp \<Rightarrow> Icmp \<times> Event list" where
  "check_icmp_echo H r icmp =
     (let icmp1 = icmp\<lparr>icmp_response := r\<rparr>
      in if icmp_response icmp1 = - 2 then (icmp1\<lparr>icmp_is_available := True\<rparr>, [])
         else if icmp_response icmp1 = - 1 then
           (icmp1\<lparr>icmp_is_available := False\<rparr>,
            [Event_post Event_Icmp STATE_FAILED (icmp_action icmp1)
               (Str ''failed ICMP test [%s]'') [Str (icmpnames H (icmp_type icmp1))]])
         else
           (icmp1\<lparr>icmp_is_available := True\<rparr>,
            [Event_post Event_Icmp STATE_SUCCEEDED (icmp_action icmp1)
               (Str ''succeeded ICMP test [%s]'') [Str (icmpnames H (icmp_type icmp1))]]))"

text \<open>
  The loop over \<^verbatim>\<open>s->icmplist\<close>. \<open>echo k\<close> is the value that the \<open>k\<close>-th call of
  \<^verbatim>\<open>icmp_echo\<close> in this loop returns, given the path, the timeout and the count. The
  result is: whether the loop ran to the end of the list (false when an unknown type made
  the function return \<^verbatim>\<open>FALSE\<close>), the list with the updated descriptors, \<^verbatim>\<open>last_ping\<close>
  and the posted events.
\<close>

fun check_icmplist ::
  "Monit_h \<Rightarrow> (nat \<Rightarrow> string \<Rightarrow> int \<Rightarrow> int \<Rightarrow> real) \<Rightarrow> Service \<Rightarrow> Icmp list \<Rightarrow> nat \<Rightarrow> Icmp option
     \<Rightarrow> bool \<times> Icmp list \<times> Icmp option \<times> Event list" where
  "check_icmplist H echo s [] k last_ping = (True, [], last_ping, [])"
| "check_icmplist H echo s (icmp # rest) k last_ping =
     (if icmp_type icmp = ICMP_ECHO then
        (case check_icmp_echo H (echo k (path s) (icmp_timeout icmp) (icmp_count icmp)) icmp of
           (icmp2, ev) \<Rightarrow>
             (case check_icmplist H echo s rest (Suc k) (Some icmp2) of
                (ok, rest1, last1, evs) \<Rightarrow> (ok, icmp2 # rest1, last1, ev @ evs)))
      else (False, icmp # rest, last_ping, []))"

text \<open>
  \<^verbatim>\<open>check_remote_host(s)\<close>: the returned flag, the service with the updated descriptors
  and the posted events.
\<close>

definition check_remote_host ::
  "Monit_h \<Rightarrow> (nat \<Rightarrow> string \<Rightarrow> int \<Rightarrow> int \<Rightarrow> real) \<Rightarrow> (nat \<Rightarrow> nat \<Rightarrow> Attempt) \<Rightarrow> Service
     \<Rightarrow> bool \<times> Service \<times> Event list" where
  "check_remote_host H echo conn s =
     (case check_icmplist H echo s (icmplist s) 0 None of
        (ok, icmps, last_ping, evs) \<Rightarrow>
          (let s1 = s\<lparr>icmplist := icmps\<rparr>
           in if \<not> ok then (False, s1, evs)
              else if (case last_ping of None \<Rightarrow> False | Some i \<Rightarrow> \<not> icmp_is_available i)
                then (False, s1, evs)
              else (case check_portlist conn s1 (portlist s1) 0 of
                      (ports, evs2) \<Rightarrow> (True, s1\<lparr>portlist := ports\<rparr>, evs @ evs2))))"

text \<open>
  The descriptors that \<^verbatim>\<open>check_remote_host\<close> probes: those before the first descriptor of
  another type than \<^verbatim>\<open>ICMP_ECHO\<close>, at which the function returns.
\<close>

definition probed_icmps :: "Service \<Rightarrow> Icmp list" where
  "probed_icmps s = takeWhile (\<lambda>i. icmp_type i = ICMP_ECHO) (icmplist s)"

subsection \<open>check_process_pid, check_process_ppid, check_filesystem_flags\<close>

definition check_process_pid :: "Service \<Rightarrow> Event list" where
  "check_process_pid s =
     (if pid_old (priv_process (inf s)) = - 1 then []
      else if pid_old (priv_process (inf s)) \<noteq> pid (priv_process (inf s)) then
        [Event_post Event_Pid STATE_CHANGED (action_PID s)
           (Str ''process PID changed from %d to %d'')
           [Int_arg (pid_old (priv_process (inf s))), Int_arg (pid (priv_process (inf s)))]]
      else
        [Event_post Event_Pid STATE_CHANGEDNOT (action_PID s)
           (Str ''process PID has not changed since last cycle'') []])"

definition check_process_ppid :: "Service \<Rightarrow> Event list" where
  "check_process_ppid s =
     (if ppid_old (priv_process (inf s)) = - 1 then []
      else if ppid_old (priv_process (inf s)) \<noteq> ppid (priv_process (inf s)) then
        [Event_post Event_PPid STATE_CHANGED (action_PPID s)
           (Str ''process PPID changed from %d to %d'')
           [Int_arg (ppid_old (priv_process (inf s))), Int_arg (ppid (priv_process (inf s)))]]
      else
        [Event_post Event_PPid STATE_CHANGEDNOT (action_PPID s)
           (Str ''process PPID has not changed since last cycle'') []])"

definition check_filesystem_flags :: "Service \<Rightarrow> Event list" where
  "check_filesystem_flags s =
     (if flags_old (priv_filesystem (inf s)) = - 1 then []
      else if flags_old (priv_filesystem (inf s)) \<noteq> flags (priv_filesystem (inf s)) then
        [Event_post Event_Fsflag STATE_CHANGED (action_FSFLAG s)
           (Str ''filesytem flags changed to %#lx'') [Int_arg (flags (priv_filesystem (inf s)))]]
      else [])"

subsection \<open>check_size and check_timestamp\<close>

text \<open>
  The cast \<^verbatim>\<open>(int)x\<close> of a \<^verbatim>\<open>time_t\<close> or \<^verbatim>\<open>long\<close> value: the low 32 bits of \<open>x\<close>, read
  as a two's complement number (what gcc and clang do for a value outside the range of
  \<^verbatim>\<open>int\<close>).
\<close>

definition int_cast :: "int \<Rightarrow> int" where
  "int_cast x = (x + 2 ^ 31) mod 2 ^ 32 - 2 ^ 31"

text \<open>
  The loop of \<^verbatim>\<open>check_size\<close> over \<^verbatim>\<open>s->sizelist\<close>: the list with the updated descriptors
  and the posted events. The \<^verbatim>\<open>break\<close> ends the recursion.
\<close>

fun check_size_list :: "Service \<Rightarrow> Size list \<Rightarrow> Size list \<times> Event list" where
  "check_size_list s [] = ([], [])"
| "check_size_list s (sl # rest) =
     (if sz_test_changes sl then
        (if \<not> sz_initialized sl then
           (sl\<lparr>sz_initialized := True, sz_size := st_size (priv_file (inf s))\<rparr> # rest, [])
         else if sz_size sl \<noteq> st_size (priv_file (inf s)) then
           (sl\<lparr>sz_size := st_size (priv_file (inf s))\<rparr> # rest,
            [Event_post Event_Size STATE_CHANGED (sz_action sl)
               (Str ''size was changed for %s'') [Str (path s)]])
         else
           (sl # rest,
            [Event_post Event_Size STATE_CHANGEDNOT (sz_action sl)
               (Str ''size was not changed'') [Str (path s)]]))
      else
        (let ev = (if Util_evalQExpression (sz_operator sl) (st_size (priv_file (inf s)))
                        (sz_size sl)
                   then Event_post Event_Size STATE_FAILED (sz_action sl)
                          (Str ''size test failed for %s -- current size is %llu B'')
                          [Str (path s), Int_arg (st_size (priv_file (inf s)))]
                   else Event_post Event_Size STATE_SUCCEEDED (sz_action sl)
                          (Str ''size succeeded'') [])
         in case check_size_list s rest of (rest1, evs) \<Rightarrow> (sl # rest1, ev # evs)))"

definition check_size :: "Service \<Rightarrow> Service \<times> Event list" where
  "check_size s =
     (case check_size_list s (sizelist s) of (sls, evs) \<Rightarrow> (s\<lparr>sizelist := sls\<rparr>, evs))"

text \<open>
  The loop of \<^verbatim>\<open>check_timestamp\<close> over \<^verbatim>\<open>s->timestamplist\<close>; \<open>now\<close> is the time that
  \<^verbatim>\<open>time(&now)\<close> stored. The age that is compared is \<^verbatim>\<open>(int)(now - s->inf->timestamp)\<close>.
\<close>

fun check_timestamp_list :: "Service \<Rightarrow> int \<Rightarrow> Timestamp list \<Rightarrow> Timestamp list \<times> Event list" where
  "check_timestamp_list s now [] = ([], [])"
| "check_timestamp_list s now (t # rest) =
     (if ts_test_changes t then
        (if ts_timestamp t \<noteq> timestamp (inf s) then
           (t\<lparr>ts_timestamp := timestamp (inf s)\<rparr> # rest,
            [Event_post Event_Timestamp STATE_CHANGED (ts_action t)
               (Str ''timestamp was changed for %s'') [Str (path s)]])
         else
           (t # rest,
            [Event_post Event_Timestamp STATE_CHANGEDNOT (ts_action t)
               (Str ''timestamp was not changed for %s'') [Str (path s)]]))
      else
        (let ev = (if Util_evalQExpression (ts_operator t)
                        (int_cast (now - timestamp (inf s))) (ts_time t)
                   then Event_post Event_Timestamp STATE_FAILED (ts_action t)
                          (Str ''timestamp test failed for %s'') [Str (path s)]
                   else Event_post Event_Timestamp STATE_SUCCEEDED (ts_action t)
                          (Str ''timestamp succeeded'') [])
         in case check_timestamp_list s now rest of (rest1, evs) \<Rightarrow> (t # rest1, ev # evs)))"

text \<open>
  \<^verbatim>\<open>check_timestamp(s)\<close>; \<open>now\<close> is the \<^verbatim>\<open>time_t\<close> that \<^verbatim>\<open>time\<close> returns and stores, -1
  when it fails. The test is \<^verbatim>\<open>(int)time(&now) == -1\<close>.
\<close>

definition check_timestamp :: "int \<Rightarrow> Service \<Rightarrow> Service \<times> Event list" where
  "check_timestamp now s =
     (if int_cast now = - 1 then
        (s, [Event_post Event_Data STATE_FAILED (action_DATA s)
               (Str ''can't obtain actual system time'') []])
      else
        (case check_timestamp_list s now (timestamplist s) of
           (ts, evs) \<Rightarrow>
             (s\<lparr>timestamplist := ts\<rparr>,
              Event_post Event_Data STATE_SUCCEEDED (action_DATA s)
                (Str ''actual system time obtained'') [] # evs)))"

text \<open>
  The event that the branch for a constant value posts for one descriptor, and the effect
  of the branch for changes on the first descriptor with \<^verbatim>\<open>test_changes\<close>.
\<close>

definition size_value_event :: "Service \<Rightarrow> Size \<Rightarrow> Event" where
  "size_value_event s sl =
     (if Util_evalQExpression (sz_operator sl) (st_size (priv_file (inf s))) (sz_size sl)
      then Event_post Event_Size STATE_FAILED (sz_action sl)
             (Str ''size test failed for %s -- current size is %llu B'')
             [Str (path s), Int_arg (st_size (priv_file (inf s)))]
      else Event_post Event_Size STATE_SUCCEEDED (sz_action sl) (Str ''size succeeded'') [])"

definition timestamp_value_event :: "Service \<Rightarrow> int \<Rightarrow> Timestamp \<Rightarrow> Event" where
  "timestamp_value_event s now t =
     (if Util_evalQExpression (ts_operator t) (int_cast (now - timestamp (inf s))) (ts_time t)
      then Event_post Event_Timestamp STATE_FAILED (ts_action t)
             (Str ''timestamp test failed for %s'') [Str (path s)]
      else Event_post Event_Timestamp STATE_SUCCEEDED (ts_action t)
             (Str ''timestamp succeeded'') [])"

subsection \<open>check_checksum\<close>

text \<open>
  \<^verbatim>\<open>snprintf(buf, n, "%s", src)\<close> into a buffer of \<open>n\<close> bytes, and the test
  \<^verbatim>\<open>strncmp(a, b, n) != 0\<close> on two C strings.
\<close>

definition snprintf_s :: "nat \<Rightarrow> string \<Rightarrow> string" where
  "snprintf_s n src = take (n - 1) src"

definition strncmp_differs :: "string \<Rightarrow> string \<Rightarrow> nat \<Rightarrow> bool" where
  "strncmp_differs a b n \<longleftrightarrow> take n a \<noteq> take n b"

text \<open>
  The end of \<^verbatim>\<open>check_checksum\<close>, after the switch has set \<^verbatim>\<open>changed\<close>; \<open>cs\<close> is the
  descriptor \<^verbatim>\<open>s->checksum\<close>.
\<close>

definition check_checksum_changed ::
  "Monit_h \<Rightarrow> Service \<Rightarrow> Checksum \<Rightarrow> bool \<Rightarrow> Service \<times> Event list" where
  "check_checksum_changed H s cs changed =
     (if changed then
        (if cs_test_changes cs then
           (s\<lparr>checksum := Some (cs\<lparr>cs_hash :=
                 snprintf_s (sizeof_hash H) (cs_sum (priv_file (inf s)))\<rparr>)\<rparr>,
            [Event_post Event_Checksum STATE_CHANGED (cs_action cs)
               (Str ''checksum was changed for %s'') [Str (path s)]])
         else
           (s, [Event_post Event_Checksum STATE_FAILED (cs_action cs)
                  (Str ''checksum test failed for %s'') [Str (path s)]]))
      else if cs_test_changes cs then
        (s, [Event_post Event_Checksum STATE_CHANGEDNOT (cs_action cs)
               (Str ''checksum has not changed'') []])
      else
        (s, [Event_post Event_Checksum STATE_SUCCEEDED (cs_action cs)
               (Str ''checksum succeeded'') []]))"

text \<open>
  \<^verbatim>\<open>check_checksum(s)\<close>. \<open>cs\<close> is the descriptor \<^verbatim>\<open>s->checksum\<close>, which the function
  asserts to exist; the updated descriptor is stored in the service that is returned.
  \<open>cksum\<close> is the result of \<^verbatim>\<open>Util_getChecksum\<close>: \<open>None\<close> when it fails, the hex string
  that it wrote to \<^verbatim>\<open>cs_sum\<close> otherwise.
\<close>

definition check_checksum :: "Monit_h \<Rightarrow> string option \<Rightarrow> Service \<Rightarrow> Checksum \<Rightarrow> Service \<times> Event list" where
  "check_checksum H cksum s cs =
     (case cksum of
        None \<Rightarrow>
          (s, [Event_post Event_Data STATE_FAILED (action_DATA s)
                 (Str ''cannot compute checksum for %s'') [Str (path s)]])
      | Some h \<Rightarrow>
          (let s1 = s\<lparr>inf := (inf s)\<lparr>priv_file := (priv_file (inf s))\<lparr>cs_sum := h\<rparr>\<rparr>\<rparr>;
               ev1 = Event_post Event_Data STATE_SUCCEEDED (action_DATA s1)
                       (Str ''checksum computed for %s'') [Str (path s1)];
               cs1 = (if \<not> cs_initialized cs
                      then cs\<lparr>cs_initialized := True,
                              cs_hash := snprintf_s (sizeof_hash H) (cs_sum (priv_file (inf s1)))\<rparr>
                      else cs);
               s2 = s1\<lparr>checksum := Some cs1\<rparr>
           in case cs_type cs1 of
                HASH_MD5 \<Rightarrow>
                  (case check_checksum_changed H s2 cs1
                          (strncmp_differs (cs_hash cs1) (cs_sum (priv_file (inf s2))) 32) of
                     (s3, evs) \<Rightarrow> (s3, ev1 # evs))
              | HASH_SHA1 \<Rightarrow>
                  (case check_checksum_changed H s2 cs1
                          (strncmp_differs (cs_hash cs1) (cs_sum (priv_file (inf s2))) 40) of
                     (s3, evs) \<Rightarrow> (s3, ev1 # evs))
              | HASH_UNKNOWN \<Rightarrow>
                  (s2\<lparr>inf := (inf s2)\<lparr>priv_file := (priv_file (inf s2))\<lparr>cs_sum := []\<rparr>\<rparr>\<rparr>,
                   [ev1])))"

text \<open>
  For the statement of the properties: the number of hex characters that are compared,
  and the state of the \<^verbatim>\<open>Checksum\<close> event.
\<close>

definition compared_length :: "Hash_Type \<Rightarrow> nat" where
  "compared_length t = (case t of HASH_MD5 \<Rightarrow> 32 | HASH_SHA1 \<Rightarrow> 40 | HASH_UNKNOWN \<Rightarrow> 0)"

definition checksum_state :: "bool \<Rightarrow> bool \<Rightarrow> State" where
  "checksum_state changed test_changes =
     (if changed then (if test_changes then STATE_CHANGED else STATE_FAILED)
      else (if test_changes then STATE_CHANGEDNOT else STATE_SUCCEEDED))"

subsection \<open>check_program\<close>

text \<open>
  Modelled from the spec: \<^verbatim>\<open>InputStream_readBytes\<close> (libmonit) reads up to \<^verbatim>\<open>STRLEN\<close>
  bytes from a stream of the child. The result is the number of bytes read, the bytes,
  and the rest of the stream; the number is 0 when the stream has no byte left.
\<close>

definition InputStream_readBytes :: "string \<Rightarrow> nat \<Rightarrow> int \<times> string \<times> string" where
  "InputStream_readBytes stream n =
     (int (length (take n stream)), take n stream, drop n stream)"

text \<open>
  The loop of \<^verbatim>\<open>check_program\<close> over \<^verbatim>\<open>s->statuslist\<close>, for the child \<open>P\<close> whose exit
  status is already stored in \<^verbatim>\<open>s->program->exitStatus\<close>.
\<close>

fun check_status_list :: "Monit_h \<Rightarrow> Service \<Rightarrow> Process \<Rightarrow> Status list \<Rightarrow> Event list" where
  "check_status_list H s P [] = []"
| "check_status_list H s P (status # rest) =
     (if Util_evalQExpression (st_operator status) (exitStatus (program s))
           (st_return_value status) then
        (case InputStream_readBytes (error_stream P) (STRLEN H) of
           (n1, buf1, err1) \<Rightarrow>
             (case (if n1 \<le> 0
                    then (case InputStream_readBytes (input_stream P) (STRLEN H) of
                            (n2, buf2, inp2) \<Rightarrow> (n2, buf2, P\<lparr>error_stream := err1,
                                                              input_stream := inp2\<rparr>))
                    else (n1, buf1, P\<lparr>error_stream := err1\<rparr>)) of
                (n, buf, P1) \<Rightarrow>
                  (if n > 0 then
                     Event_post Event_Status STATE_FAILED (st_action status) (Str ''%s'')
                       [Str buf]
                   else
                     Event_post Event_Status STATE_FAILED (st_action status)
                       (Str '''%s' failed with exit status (%d) -- no output from program'')
                       [Str (path s), Int_arg (exitStatus (program s))])
                  # check_status_list H s P1 rest))
      else
        Event_post Event_Status STATE_SUCCEEDED (st_action status) (Str ''status succeeded'') []
        # check_status_list H s P rest)"

text \<open>
  The end of \<^verbatim>\<open>check_program\<close>, from the comment \<^verbatim>\<open>Start program\<close> on: \<open>spawn\<close> is the
  result of \<^verbatim>\<open>Command_execute\<close>, either the new child or, when it returns NULL, the text
  of \<^verbatim>\<open>STRERROR\<close>.
\<close>

definition start_program :: "int \<Rightarrow> string + Process \<Rightarrow> Service \<Rightarrow> Service \<times> Event list" where
  "start_program now spawn s =
     (case spawn of
        Inl err \<Rightarrow>
          (let s1 = s\<lparr>program := (program s)\<lparr>prog_P := None\<rparr>\<rparr>
           in (s1, [Event_post Event_Status STATE_FAILED (action_EXEC s1)
                      (Str ''failed to execute '%s' -- %s'') [Str (path s1), Str err]]))
      | Inr P \<Rightarrow>
          (let s1 = s\<lparr>program := (program s)\<lparr>prog_P := Some P\<rparr>\<rparr>
           in (s1\<lparr>program := (program s1)\<lparr>started := now\<rparr>\<rparr>,
               [Event_post Event_Status STATE_SUCCEEDED (action_EXEC s1)
                  (Str '''%s' program started'') [Str (name s1)]])))"

text \<open>
  The part of \<^verbatim>\<open>check_program\<close> that evaluates the exit status of the child \<open>P\<close>,
  which has terminated: it stores the status, runs the status rules, frees the child and
  starts the program again.
\<close>

definition check_program_exit ::
  "Monit_h \<Rightarrow> int \<Rightarrow> string + Process \<Rightarrow> Service \<Rightarrow> Process \<Rightarrow> bool \<times> Service \<times> Event list" where
  "check_program_exit H now spawn s P =
     (let s1 = s\<lparr>program := (program s)\<lparr>exitStatus := exit_status P\<rparr>\<rparr>;
          evs1 = check_status_list H s1 P (statuslist s1);
          s2 = s1\<lparr>program := (program s1)\<lparr>prog_P := None\<rparr>\<rparr>
      in case start_program now spawn s2 of (s3, evs2) \<Rightarrow> (True, s3, evs1 @ evs2))"

text \<open>
  \<^verbatim>\<open>check_program(s)\<close>: \<open>now\<close> is \<^verbatim>\<open>Time_now()\<close>. The result is the returned flag, the
  service and the posted events. A child that exceeded its timeout is killed and waited
  for; \<^verbatim>\<open>Process_exitStatus\<close> then returns \<open>exit_status_killed\<close>.
\<close>

definition check_program ::
  "Monit_h \<Rightarrow> int \<Rightarrow> string + Process \<Rightarrow> Service \<Rightarrow> bool \<times> Service \<times> Event list" where
  "check_program H now spawn s =
     (case prog_P (program s) of
        None \<Rightarrow> (case start_program now spawn s of (s1, evs) \<Rightarrow> (True, s1, evs))
      | Some P \<Rightarrow>
          (if exit_status P < 0 then
             (let execution_time = now - started (program s)
              in if execution_time > timeout (program s)
                 then check_program_exit H now spawn s (P\<lparr>exit_status := exit_status_killed P\<rparr>)
                 else (True, s, []))
           else check_program_exit H now spawn s P))"

subsection \<open>check_match\<close>

definition MATCH_LINE_LENGTH :: nat where
  "MATCH_LINE_LENGTH = 512"

definition newline :: char where
  "newline = CHR 0x0A"

definition NUL :: char where
  "NUL = CHR 0x00"

text \<open>
  The file that \<^verbatim>\<open>fopen\<close> opens: whether it can be opened, its bytes, and at which
  positions \<^verbatim>\<open>fseek\<close> and \<^verbatim>\<open>fgets\<close> report an error.
\<close>

record File_Probe =
  fopen_ok :: bool
  file_bytes :: string
  fseek_fails :: "int \<Rightarrow> bool"
  fgets_fails :: "int \<Rightarrow> bool"

text \<open>
  \<^verbatim>\<open>fgets(line, n + 1, file)\<close> on the bytes from the file position on: it reads at most
  \<open>n\<close> bytes and stops behind a newline.
\<close>

fun fgets_bytes :: "nat \<Rightarrow> string \<Rightarrow> string" where
  "fgets_bytes 0 cs = []"
| "fgets_bytes (Suc n) [] = []"
| "fgets_bytes (Suc n) (c # cs) = (if c = newline then [c] else c # fgets_bytes n cs)"

text \<open>The C string in a buffer that holds the bytes \<open>buf\<close> and then a NUL.\<close>

definition c_string :: "string \<Rightarrow> string" where
  "c_string buf = takeWhile (\<lambda>c. c \<noteq> NUL) buf"

text \<open>
  The loop \<^verbatim>\<open>do { if ((rv = fgetc(file)) == EOF) goto final; length++; } while (rv != '\n')\<close>
  on the bytes from the file position on: the new \<^verbatim>\<open>length\<close>, or \<open>None\<close> when the end
  of the file is reached and the function jumps to \<^verbatim>\<open>final\<close>.
\<close>

fun skip_to_newline :: "string \<Rightarrow> nat \<Rightarrow> nat option" where
  "skip_to_newline [] len = None"
| "skip_to_newline (c # cs) len =
     (if c = newline then Some (Suc len) else skip_to_newline cs (Suc len))"

text \<open>
  One pass of the loop of \<^verbatim>\<open>check_match\<close> from the label \<^verbatim>\<open>next\<close> to the assignment of
  \<^verbatim>\<open>readpos\<close>, at the read position \<open>pos\<close>: \<open>None\<close> when the pass jumps to \<^verbatim>\<open>final\<close>,
  otherwise \<^verbatim>\<open>length\<close> (by which \<^verbatim>\<open>readpos\<close> advances) and the content of \<^verbatim>\<open>line\<close>.
\<close>

definition read_line :: "File_Probe \<Rightarrow> int \<Rightarrow> (nat \<times> string) option" where
  "read_line f pos =
     (if pos < 0 \<or> fseek_fails f pos then None
      else
        (let rest = drop (nat pos) (file_bytes f);
             buf = fgets_bytes (MATCH_LINE_LENGTH - 1) rest
         in if fgets_fails f pos \<or> buf = [] then None
            else
              (let line = c_string buf; len = length line
               in if len = 0 then None
                  else if last line \<noteq> newline then
                    (if len < MATCH_LINE_LENGTH - 1 then None
                     else if len = MATCH_LINE_LENGTH - 1 then
                       (case skip_to_newline (drop (length buf) rest) len of
                          None \<Rightarrow> None
                        | Some len1 \<Rightarrow> Some (len1, line))
                     else Some (len, line))
                  else Some (len, butlast line))))"

text \<open>
  The test \<^verbatim>\<open>(check_pattern(ml, line) == 0) ^ (ml->not)\<close>; \<open>check_pattern\<close> is the regex
  or substring engine, an argument.
\<close>

definition pattern_hit :: "(Match \<Rightarrow> string \<Rightarrow> int) \<Rightarrow> Match \<Rightarrow> string \<Rightarrow> bool" where
  "pattern_hit check_pattern ml line \<longleftrightarrow> (check_pattern ml line = 0) \<noteq> match_not ml"

text \<open>Saving a matching line in the log of the descriptor.\<close>

definition log_line :: "Match \<Rightarrow> string \<Rightarrow> Match" where
  "log_line ml line =
     (let lg = (case match_log ml of None \<Rightarrow> [] | Some b \<Rightarrow> b)
      in if length lg < MATCH_LINE_LENGTH then
           (let lg1 = lg @ line @ [newline]
            in ml\<lparr>match_log := Some (if length lg1 \<ge> MATCH_LINE_LENGTH
                                      then lg1 @ ''...'' @ [newline] else lg1)\<rparr>)
         else ml\<lparr>match_log := Some lg\<rparr>)"

text \<open>Facts for the termination of the loop: a pass that goes on has read at least one
  byte, and no more than the file holds behind the read position.\<close>

lemma fgets_bytes_prefix: "length (fgets_bytes n cs) \<le> length cs"
  by (induction n cs rule: fgets_bytes.induct) simp_all

lemma skip_to_newline_bound:
  "skip_to_newline cs len = Some len1 \<Longrightarrow> len < len1 \<and> len1 \<le> len + length cs"
  by (induction cs len rule: skip_to_newline.induct) (auto split: if_splits)

lemma skip_after_fgets_bound:
  assumes "skip_to_newline (drop (length (fgets_bytes n rest)) rest)
             (length (c_string (fgets_bytes n rest))) = Some len1"
  shows "0 < len1 \<and> len1 \<le> length rest"
proof -
  have "length (c_string (fgets_bytes n rest)) \<le> length (fgets_bytes n rest)"
    by (simp add: c_string_def length_takeWhile_le)
  moreover have "length (fgets_bytes n rest) \<le> length rest"
    by (rule fgets_bytes_prefix)
  moreover from skip_to_newline_bound [OF assms]
  have "length (c_string (fgets_bytes n rest)) < len1"
    and "len1 \<le> length (c_string (fgets_bytes n rest))
           + (length rest - length (fgets_bytes n rest))"
    by simp_all
  ultimately show ?thesis by arith
qed

lemma c_string_fgets_bound: "length (c_string (fgets_bytes n rest)) \<le> length rest"
  using fgets_bytes_prefix [of n rest] length_takeWhile_le [of "\<lambda>c. c \<noteq> NUL" "fgets_bytes n rest"]
  by (simp add: c_string_def)

lemma read_line_advances:
  assumes "read_line f pos = Some (len, line)"
  shows "0 \<le> pos \<and> 0 < len \<and> nat pos + len \<le> length (file_bytes f)"
proof -
  let ?rest = "drop (nat pos) (file_bytes f)"
  from assms have pos: "0 \<le> pos"
    by (auto simp: read_line_def Let_def split: if_splits)
  have "0 < len \<and> len \<le> length ?rest"
    using assms skip_after_fgets_bound [of "MATCH_LINE_LENGTH - 1" ?rest len]
      c_string_fgets_bound [of "MATCH_LINE_LENGTH - 1" ?rest]
    by (auto simp: read_line_def Let_def simp del: length_drop split: if_splits option.splits)
  then have "0 < len" and "nat pos + len \<le> length (file_bytes f)"
    by auto
  with pos show ?thesis by simp
qed

text \<open>
  The loop \<^verbatim>\<open>while (TRUE)\<close> of \<^verbatim>\<open>check_match\<close>: the read position and the match list
  when the loop is left for \<^verbatim>\<open>final\<close>. A line that an ignore pattern hits is skipped
  (\<^verbatim>\<open>goto next\<close>); otherwise each match pattern that hits the line logs it. Every pass
  that does not leave the loop advances the read position, which is bounded by the length
  of the file: the loop terminates.
\<close>

function check_match_loop ::
  "(Match \<Rightarrow> string \<Rightarrow> int) \<Rightarrow> File_Probe \<Rightarrow> Match list \<Rightarrow> int \<Rightarrow> Match list
     \<Rightarrow> int \<times> Match list" where
  "check_match_loop check_pattern f ignores pos mls =
     (case read_line f pos of
        None \<Rightarrow> (pos, mls)
      | Some (len, line) \<Rightarrow>
          if list_ex (\<lambda>ml. pattern_hit check_pattern ml line) ignores
          then check_match_loop check_pattern f ignores (pos + int len) mls
          else check_match_loop check_pattern f ignores (pos + int len)
                 (map (\<lambda>ml. if pattern_hit check_pattern ml line then log_line ml line else ml)
                    mls))"
  by pat_completeness auto
termination
proof (relation "measure (\<lambda>(cp, f, ignores, pos, mls). length (file_bytes f) - nat pos)")
  show "wf (measure (\<lambda>(cp, f, ignores, pos, mls). length (file_bytes f) - nat pos))"
    by simp
next
  fix check_pattern f ignores pos mls x2 x y
  assume "read_line f pos = Some x2" and "(x, y) = x2"
  then have "read_line f pos = Some (x, y)" by simp
  from read_line_advances [OF this]
  show "((check_pattern, f, ignores, pos + int x, mls), (check_pattern, f, ignores, pos, mls))
          \<in> measure (\<lambda>(cp, f, ignores, pos, mls). length (file_bytes f) - nat pos)"
    by (auto simp: nat_add_distrib)
next
  fix check_pattern f ignores pos mls x2 x y
  assume "read_line f pos = Some x2" and "(x, y) = x2"
  then have "read_line f pos = Some (x, y)" by simp
  from read_line_advances [OF this]
  show "((check_pattern, f, ignores, pos + int x,
          map (\<lambda>ml. if pattern_hit check_pattern ml y then log_line ml y else ml) mls),
         (check_pattern, f, ignores, pos, mls))
          \<in> measure (\<lambda>(cp, f, ignores, pos, mls). length (file_bytes f) - nat pos)"
    by (auto simp: nat_add_distrib)
qed

declare check_match_loop.simps [simp del]

text \<open>
  Modelled from the spec: \<^verbatim>\<open>Str_startsWith\<close> (libmonit) tells whether the path begins
  with the given text.
\<close>

definition Str_startsWith :: "string \<Rightarrow> string \<Rightarrow> bool" where
  "Str_startsWith a b \<longleftrightarrow> take (length b) a = b"

text \<open>
  \<^verbatim>\<open>check_match(s)\<close>: the service and the posted events. The events are those of the
  post-processing at \<^verbatim>\<open>final\<close>, which also frees the logs.
\<close>

definition check_match ::
  "(Match \<Rightarrow> string \<Rightarrow> int) \<Rightarrow> File_Probe \<Rightarrow> Service \<Rightarrow> Service \<times> Event list" where
  "check_match check_pattern f s =
     (if \<not> fopen_ok f then (s, [])
      else
        (let fi = priv_file (inf s);
             proc = Str_startsWith (path s) ''/proc'';
             pos0 = (if proc then 0
                     else if st_ino fi \<noteq> st_ino_prev fi \<or> readpos fi > st_size fi then 0
                     else readpos fi);
             (pos1, mls) = (if \<not> proc \<and> pos0 = st_size fi then (pos0, matchlist s)
                            else check_match_loop check_pattern f (matchignorelist s) pos0
                                   (matchlist s));
             evs = map (\<lambda>ml. case match_log ml of
                                Some lg \<Rightarrow>
                                  Event_post Event_Content STATE_CHANGED (match_action ml)
                                    (Str (''content match:'' @ [newline] @ ''%s'')) [Str lg]
                              | None \<Rightarrow>
                                  Event_post Event_Content STATE_CHANGEDNOT (match_action ml)
                                    (Str ''content doesn't match'') []) mls
         in (s\<lparr>inf := (inf s)\<lparr>priv_file := fi\<lparr>readpos := pos1\<rparr>\<rparr>,
               matchlist := map (\<lambda>ml. ml\<lparr>match_log := None\<rparr>) mls\<rparr>,
             evs)))"

subsection \<open>Floating point\<close>

text \<open>
  A value of type \<^verbatim>\<open>double\<close> or \<^verbatim>\<open>float\<close> is given by the real number that it denotes.
  An operation rounds the exact result to the nearest value of the format, and a tie to
  the value with the even significand (the default rounding of IEEE 754): \<open>round_to p x\<close>
  is \<open>x\<close> rounded to a significand of \<open>p\<close> bits, 53 for a \<^verbatim>\<open>double\<close> and 24 for a
  \<^verbatim>\<open>float\<close>. The exponent is not bounded: overflow to infinity and the subnormal range
  are not modelled, nor is a NaN.
\<close>

definition pow2 :: "int \<Rightarrow> real" where
  "pow2 e = (if 0 \<le> e then 2 ^ nat e else 1 / 2 ^ nat (- e))"

text \<open>The exponent \<open>e\<close> of a positive \<open>x\<close>: \<open>2 ^ e \<le> x < 2 ^ (e + 1)\<close>; 0 for \<open>x \<le> 0\<close>.\<close>

function binade :: "real \<Rightarrow> int" where
  "binade x = (if 2 \<le> x then binade (x / 2) + 1
               else if 0 < x \<and> x < 1 then binade (x * 2) - 1 else 0)"
  by pat_completeness auto
termination
proof (relation "measure (\<lambda>x. if 1 \<le> x then nat \<lfloor>x\<rfloor> else nat \<lceil>1 / x\<rceil>)")
  show "wf (measure (\<lambda>x::real. if 1 \<le> x then nat \<lfloor>x\<rfloor> else nat \<lceil>1 / x\<rceil>))" by simp
next
  fix x :: real
  assume a: "2 \<le> x"
  have "\<lfloor>x / 2\<rfloor> \<le> \<lfloor>x - 1\<rfloor>" using a by (intro floor_mono) simp
  then have "\<lfloor>x / 2\<rfloor> < \<lfloor>x\<rfloor>" by simp
  moreover have "1 \<le> \<lfloor>x\<rfloor>" using a by simp
  ultimately show "(x / 2, x) \<in> measure (\<lambda>x. if 1 \<le> x then nat \<lfloor>x\<rfloor> else nat \<lceil>1 / x\<rceil>)"
    using a by simp
next
  fix x :: real
  assume a: "\<not> 2 \<le> x" "0 < x \<and> x < 1"
  then have y: "1 < 1 / x" by simp
  show "(x * 2, x) \<in> measure (\<lambda>x. if 1 \<le> x then nat \<lfloor>x\<rfloor> else nat \<lceil>1 / x\<rceil>)"
  proof (cases "1 \<le> x * 2")
    case True
    then have "\<lfloor>x * 2\<rfloor> = 1" using a by (intro floor_unique) simp_all
    moreover have "1 < \<lceil>1 / x\<rceil>" using y by (simp add: less_ceiling_iff)
    ultimately show ?thesis using True a by simp
  next
    case False
    then have "2 < 1 / x" using a by (simp add: field_simps)
    then have "1 / (x * 2) \<le> 1 / x - 1" by (simp add: field_simps)
    then have "\<lceil>1 / (x * 2)\<rceil> \<le> \<lceil>1 / x - 1\<rceil>" by (rule ceiling_mono)
    then have "\<lceil>1 / (x * 2)\<rceil> < \<lceil>1 / x\<rceil>" by simp
    moreover have "0 < \<lceil>1 / x\<rceil>" using a by simp
    ultimately show ?thesis using False a by simp
  qed
qed

declare binade.simps [simp del]

text \<open>The nearest integer, a tie to the even one.\<close>

definition rne :: "real \<Rightarrow> int" where
  "rne y = (let f = \<lfloor>y\<rfloor>; d = y - of_int f
            in if d < 1 / 2 then f else if 1 / 2 < d then f + 1
               else if even f then f else f + 1)"

definition round_to :: "nat \<Rightarrow> real \<Rightarrow> real" where
  "round_to p x = (let u = pow2 (binade \<bar>x\<bar> - int p + 1) in of_int (rne (x / u)) * u)"

text \<open>
  The conversions of a \<^verbatim>\<open>long\<close> to \<^verbatim>\<open>double\<close> and to \<^verbatim>\<open>float\<close>, and the product and the
  quotient of two \<^verbatim>\<open>double\<close> values. The conversion of a \<^verbatim>\<open>float\<close> to \<^verbatim>\<open>double\<close> is
  exact.
\<close>

definition double_of_int :: "int \<Rightarrow> real" where
  "double_of_int n = round_to 53 (of_int n)"

definition float_of_int :: "int \<Rightarrow> real" where
  "float_of_int n = round_to 24 (of_int n)"

definition double_mul :: "real \<Rightarrow> real \<Rightarrow> real" where
  "double_mul a b = round_to 53 (a * b)"

definition double_div :: "real \<Rightarrow> real \<Rightarrow> real" where
  "double_div a b = round_to 53 (a / b)"

text \<open>
  The cast \<^verbatim>\<open>(int)x\<close> of a \<^verbatim>\<open>double\<close>: the fraction is discarded (truncation toward
  zero). When the integer part is outside the range of \<^verbatim>\<open>int\<close>, C leaves the result
  undefined; the model takes \<^verbatim>\<open>INT_MIN\<close>, the result of the conversion instruction of
  x86-64.
\<close>

definition int_of_double :: "real \<Rightarrow> int" where
  "int_of_double x =
     (if - (2 ^ 31) - 1 < x \<and> x < 2 ^ 31 then (if 0 \<le> x then \<lfloor>x\<rfloor> else \<lceil>x\<rceil>)
      else - (2 ^ 31))"

subsection \<open>check_process_resources\<close>

text \<open>
  The pattern of every case of the switch: when the expression of operator, value and
  limit holds, the report of the match is written and \<^verbatim>\<open>okay\<close> is \<^verbatim>\<open>FALSE\<close>; otherwise
  the report of the success is written. The result is \<^verbatim>\<open>okay\<close> and \<^verbatim>\<open>report\<close>.
\<close>

definition limit_test :: "Resource \<Rightarrow> int \<Rightarrow> Text \<Rightarrow> Text \<Rightarrow> bool \<times> Text" where
  "limit_test r v matches succeeded_report =
     (if Util_evalQExpression (res_operator r) v (res_limit r) then (False, matches)
      else (True, succeeded_report))"

text \<open>The two reports of a percentage: value and limit are printed divided by 10.0.\<close>

definition percent_test :: "Monit_h \<Rightarrow> Service \<Rightarrow> Resource \<Rightarrow> int \<Rightarrow> string \<Rightarrow> string \<Rightarrow> bool \<times> Text" where
  "percent_test H s r v matches_fmt succeeded_fmt =
     limit_test r v
       (Snprintf matches_fmt
          [Real_arg (double_div (double_of_int v) 10),
           Str (operatorshortnames H (res_operator r)),
           Real_arg (double_div (double_of_int (res_limit r)) 10)])
       (Snprintf succeeded_fmt [Str (name s), Real_arg (double_div (double_of_int v) 10)])"

definition kbyte_test :: "Monit_h \<Rightarrow> Service \<Rightarrow> Resource \<Rightarrow> int \<Rightarrow> string \<Rightarrow> string \<Rightarrow> bool \<times> Text" where
  "kbyte_test H s r v matches_fmt succeeded_fmt =
     limit_test r v
       (Snprintf matches_fmt
          [Int_arg v, Str (operatorshortnames H (res_operator r)), Int_arg (res_limit r)])
       (Snprintf succeeded_fmt [Str (name s), Int_arg v])"

text \<open>
  The test of a load average, the \<^verbatim>\<open>double\<close> \<open>load\<close>: the value that is compared is
  \<^verbatim>\<open>(int)(load * 10.0)\<close>, the product of two \<^verbatim>\<open>double\<close> values cast to \<^verbatim>\<open>int\<close>.
\<close>

definition load_test :: "Monit_h \<Rightarrow> Service \<Rightarrow> Resource \<Rightarrow> real \<Rightarrow> string \<Rightarrow> string \<Rightarrow> bool \<times> Text" where
  "load_test H s r load matches_fmt succeeded_fmt =
     limit_test r (int_of_double (double_mul load 10))
       (Snprintf matches_fmt
          [Real_arg load, Str (operatorshortnames H (res_operator r)),
           Real_arg (double_div (double_of_int (res_limit r)) 10)])
       (Snprintf succeeded_fmt [Str (name s), Real_arg load])"

text \<open>
  The switch of \<^verbatim>\<open>check_process_resources\<close>: \<open>None\<close> for a resource id without a case
  (the function returns), otherwise \<^verbatim>\<open>okay\<close> and \<^verbatim>\<open>report\<close>; \<open>(True, Snprintf [] [])\<close> is
  their initial value, which a skipped test leaves. \<open>si\<close> is the global \<^verbatim>\<open>systeminfo\<close>.
\<close>

definition resource_switch ::
  "Monit_h \<Rightarrow> SystemInfo \<Rightarrow> Service \<Rightarrow> Resource \<Rightarrow> (bool \<times> Text) option" where
  "resource_switch H si s r =
     (let init = (monitor s AND MONITOR_INIT H \<noteq> 0); p = priv_process (inf s);
          skipped = (True, Snprintf [] [])
      in case resource_id r of
        RESOURCE_ID_CPU_PERCENT \<Rightarrow>
          Some (if init \<or> cpu_percent p < 0 then skipped
                else percent_test H s r (cpu_percent p)
                  ''cpu usage of %.1f%% matches resource limit [cpu usage%s%.1f%%]''
                  '''%s' cpu usage check succeeded [current cpu usage=%.1f%%]'')
      | RESOURCE_ID_TOTAL_CPU_PERCENT \<Rightarrow>
          Some (if init \<or> total_cpu_percent p < 0 then skipped
                else percent_test H s r (total_cpu_percent p)
                  ''total cpu usage of %.1f%% matches resource limit [cpu usage%s%.1f%%]''
                  '''%s' total cpu usage check succeeded [current cpu usage=%.1f%%]'')
      | RESOURCE_ID_CPUUSER \<Rightarrow>
          Some (if init \<or> total_cpu_user_percent si < 0 then skipped
                else percent_test H s r (total_cpu_user_percent si)
                  ''cpu user usage of %.1f%% matches resource limit [cpu user usage%s%.1f%%]''
                  '''%s' cpu user usage check succeeded [current cpu user usage=%.1f%%]'')
      | RESOURCE_ID_CPUSYSTEM \<Rightarrow>
          Some (if init \<or> total_cpu_syst_percent si < 0 then skipped
                else percent_test H s r (total_cpu_syst_percent si)
                  ''cpu system usage of %.1f%% matches resource limit [cpu system usage%s%.1f%%]''
                  '''%s' cpu system usage check succeeded [current cpu system usage=%.1f%%]'')
      | RESOURCE_ID_CPUWAIT \<Rightarrow>
          Some (if init \<or> total_cpu_wait_percent si < 0 then skipped
                else percent_test H s r (total_cpu_wait_percent si)
                  ''cpu wait usage of %.1f%% matches resource limit [cpu wait usage%s%.1f%%]''
                  '''%s' cpu wait usage check succeeded [current cpu wait usage=%.1f%%]'')
      | RESOURCE_ID_MEM_PERCENT \<Rightarrow>
          Some (percent_test H s r
                  (if type_s s = TYPE_SYSTEM then sys_total_mem_percent si else mem_percent p)
                  ''mem usage of %.1f%% matches resource limit [mem usage%s%.1f%%]''
                  '''%s' mem usage check succeeded [current mem usage=%.1f%%]'')
      | RESOURCE_ID_MEM_KBYTE \<Rightarrow>
          Some (kbyte_test H s r
                  (if type_s s = TYPE_SYSTEM then sys_total_mem_kbyte si else mem_kbyte p)
                  ''mem amount of %ldkB matches resource limit [mem amount%s%ldkB]''
                  '''%s' mem amount check succeeded [current mem amount=%ldkB]'')
      | RESOURCE_ID_SWAP_PERCENT \<Rightarrow>
          Some (if type_s s = TYPE_SYSTEM
                then percent_test H s r (total_swap_percent si)
                  ''swap usage of %.1f%% matches resource limit [swap usage%s%.1f%%]''
                  '''%s' swap usage check succeeded [current swap usage=%.1f%%]''
                else skipped)
      | RESOURCE_ID_SWAP_KBYTE \<Rightarrow>
          Some (if type_s s = TYPE_SYSTEM
                then kbyte_test H s r (total_swap_kbyte si)
                  ''swap amount of %ldkB matches resource limit [swap amount%s%ldkB]''
                  '''%s' swap amount check succeeded [current swap amount=%ldkB]''
                else skipped)
      | RESOURCE_ID_LOAD1 \<Rightarrow>
          Some (load_test H s r (loadavg si 0)
                  ''loadavg(1min) of %.1f matches resource limit [loadavg(1min)%s%.1f]''
                  '''%s' loadavg(1min) check succeeded [current loadavg(1min)=%.1f]'')
      | RESOURCE_ID_LOAD5 \<Rightarrow>
          Some (load_test H s r (loadavg si 1)
                  ''loadavg(5min) of %.1f matches resource limit [loadavg(5min)%s%.1f]''
                  '''%s' loadavg(5min) check succeeded [current loadavg(5min)=%.1f]'')
      | RESOURCE_ID_LOAD15 \<Rightarrow>
          Some (load_test H s r (loadavg si 2)
                  ''loadavg(15min) of %.1f matches resource limit [loadavg(15min)%s%.1f]''
                  '''%s' loadavg(15min) check succeeded [current loadavg(15min)=%.1f]'')
      | RESOURCE_ID_CHILDREN \<Rightarrow>
          Some (kbyte_test H s r (children p)
                  ''children of %i matches resource limit [children%s%ld]''
                  '''%s' children check succeeded [current children=%i]'')
      | RESOURCE_ID_TOTAL_MEM_KBYTE \<Rightarrow>
          Some (kbyte_test H s r (total_mem_kbyte p)
                  ''total mem amount of %ldkB matches resource limit [total mem amount%s%ldkB]''
                  '''%s' total mem amount check succeeded [current total mem amount=%ldkB]'')
      | RESOURCE_ID_TOTAL_MEM_PERCENT \<Rightarrow>
          Some (percent_test H s r (total_mem_percent p)
                  ''total mem amount of %.1f%% matches resource limit [total mem amount%s%.1f%%]''
                  '''%s' total mem amount check succeeded [current total mem amount=%.1f%%]'')
      | RESOURCE_ID_INODE \<Rightarrow> None
      | RESOURCE_ID_SPACE \<Rightarrow> None)"

text \<open>\<^verbatim>\<open>check_process_resources(s, r)\<close>: the posted events.\<close>

definition check_process_resources ::
  "Monit_h \<Rightarrow> SystemInfo \<Rightarrow> Service \<Rightarrow> Resource \<Rightarrow> Event list" where
  "check_process_resources H si s r =
     (case resource_switch H si s r of
        None \<Rightarrow> []
      | Some (okay, report) \<Rightarrow>
          if \<not> okay
          then [Event_post Event_Resource STATE_FAILED (res_action r) (Str ''%s'') [report]]
          else [Event_post Event_Resource STATE_SUCCEEDED (res_action r) (Str ''%s'') [report]])"

text \<open>
  For the statement of the properties: the percentage that a resource id measures, as the
  snapshot stores it (an integer, tenths of a percent), \<open>None\<close> for an id that is no
  percentage; and the condition under which the switch skips the test of a resource.
\<close>

definition percent_value :: "SystemInfo \<Rightarrow> Service \<Rightarrow> Resource_Id \<Rightarrow> int option" where
  "percent_value si s rid =
     (case rid of
        RESOURCE_ID_CPU_PERCENT \<Rightarrow> Some (cpu_percent (priv_process (inf s)))
      | RESOURCE_ID_TOTAL_CPU_PERCENT \<Rightarrow> Some (total_cpu_percent (priv_process (inf s)))
      | RESOURCE_ID_CPUUSER \<Rightarrow> Some (total_cpu_user_percent si)
      | RESOURCE_ID_CPUSYSTEM \<Rightarrow> Some (total_cpu_syst_percent si)
      | RESOURCE_ID_CPUWAIT \<Rightarrow> Some (total_cpu_wait_percent si)
      | RESOURCE_ID_MEM_PERCENT \<Rightarrow>
          Some (if type_s s = TYPE_SYSTEM then sys_total_mem_percent si
                else mem_percent (priv_process (inf s)))
      | RESOURCE_ID_SWAP_PERCENT \<Rightarrow> Some (total_swap_percent si)
      | RESOURCE_ID_TOTAL_MEM_PERCENT \<Rightarrow> Some (total_mem_percent (priv_process (inf s)))
      | _ \<Rightarrow> None)"

definition resource_skipped :: "Monit_h \<Rightarrow> SystemInfo \<Rightarrow> Service \<Rightarrow> Resource_Id \<Rightarrow> bool" where
  "resource_skipped H si s rid =
     (case rid of
        RESOURCE_ID_CPU_PERCENT \<Rightarrow>
          monitor s AND MONITOR_INIT H \<noteq> 0 \<or> cpu_percent (priv_process (inf s)) < 0
      | RESOURCE_ID_TOTAL_CPU_PERCENT \<Rightarrow>
          monitor s AND MONITOR_INIT H \<noteq> 0 \<or> total_cpu_percent (priv_process (inf s)) < 0
      | RESOURCE_ID_CPUUSER \<Rightarrow>
          monitor s AND MONITOR_INIT H \<noteq> 0 \<or> total_cpu_user_percent si < 0
      | RESOURCE_ID_CPUSYSTEM \<Rightarrow>
          monitor s AND MONITOR_INIT H \<noteq> 0 \<or> total_cpu_syst_percent si < 0
      | RESOURCE_ID_CPUWAIT \<Rightarrow>
          monitor s AND MONITOR_INIT H \<noteq> 0 \<or> total_cpu_wait_percent si < 0
      | RESOURCE_ID_SWAP_PERCENT \<Rightarrow> type_s s \<noteq> TYPE_SYSTEM
      | RESOURCE_ID_SWAP_KBYTE \<Rightarrow> type_s s \<noteq> TYPE_SYSTEM
      | _ \<Rightarrow> False)"

text \<open>The load average that a resource id measures.\<close>

definition load_value :: "SystemInfo \<Rightarrow> Resource_Id \<Rightarrow> real option" where
  "load_value si rid =
     (case rid of
        RESOURCE_ID_LOAD1 \<Rightarrow> Some (loadavg si 0)
      | RESOURCE_ID_LOAD5 \<Rightarrow> Some (loadavg si 1)
      | RESOURCE_ID_LOAD15 \<Rightarrow> Some (loadavg si 2)
      | _ \<Rightarrow> None)"

subsection \<open>check_filesystem\<close>

text \<open>
  \<^verbatim>\<open>check_perm\<close>, \<^verbatim>\<open>check_uid\<close> and \<^verbatim>\<open>check_gid\<close>, with the descriptor \<^verbatim>\<open>s->perm\<close>,
  \<^verbatim>\<open>s->uid\<close> or \<^verbatim>\<open>s->gid\<close> that the caller has tested to exist; \<open>0xFFF\<close> is the octal
  \<^verbatim>\<open>07777\<close>.
\<close>

definition check_perm :: "Service \<Rightarrow> Perm \<Rightarrow> Event list" where
  "check_perm s pm =
     (if st_mode (inf s) AND 0xFFF \<noteq> perm_perm pm then
        [Event_post Event_Permission STATE_FAILED (perm_action pm)
           (Str ''permission test failed for %s -- current permission is %04o'')
           [Str (path s), Int_arg (uint (st_mode (inf s) AND 0xFFF))]]
      else
        [Event_post Event_Permission STATE_SUCCEEDED (perm_action pm)
           (Str ''permission succeeded'') []])"

definition check_uid :: "Service \<Rightarrow> Uid \<Rightarrow> Event list" where
  "check_uid s u =
     (if st_uid (inf s) \<noteq> uid_uid u then
        [Event_post Event_Uid STATE_FAILED (uid_action u)
           (Str ''uid test failed for %s -- current uid is %d'')
           [Str (path s), Int_arg (st_uid (inf s))]]
      else [Event_post Event_Uid STATE_SUCCEEDED (uid_action u) (Str ''uid succeeded'') []])"

definition check_gid :: "Service \<Rightarrow> Gid \<Rightarrow> Event list" where
  "check_gid s g =
     (if st_gid (inf s) \<noteq> gid_gid g then
        [Event_post Event_Gid STATE_FAILED (gid_action g)
           (Str ''gid test failed for %s -- current gid is %d'')
           [Str (path s), Int_arg (st_gid (inf s))]]
      else [Event_post Event_Gid STATE_SUCCEEDED (gid_action g) (Str ''gid succeeded'') []])"

text \<open>
  \<^verbatim>\<open>check_filesystem_resources(s, td)\<close>: the posted events. A resource other than inode
  and space, a descriptor without a limit and a filesystem without inodes post nothing.
\<close>

definition check_filesystem_resources :: "Monit_h \<Rightarrow> Service \<Rightarrow> Filesystem \<Rightarrow> Event list" where
  "check_filesystem_resources H s td =
     (let fi = priv_filesystem (inf s);
          succeeded_event = Event_post Event_Resource STATE_SUCCEEDED (fs_action td)
                              (Str ''filesystem resources succeeded'') []
      in if fs_limit_percent td < 0 \<and> fs_limit_absolute td < 0 then []
         else case fs_resource td of
           RESOURCE_ID_INODE \<Rightarrow>
             (if f_files fi \<le> 0 then []
              else if fs_limit_percent td \<ge> 0 then
                (if Util_evalQExpression (fs_operator td) (inode_percent fi) (fs_limit_percent td)
                 then [Event_post Event_Resource STATE_FAILED (fs_action td)
                         (Str ''inode usage %.1f%% matches resource limit [inode usage%s%.1f%%]'')
                         [Real_arg (double_div (double_of_int (inode_percent fi)) 10),
                          Str (operatorshortnames H (fs_operator td)),
                          Real_arg (double_div (double_of_int (fs_limit_percent td)) 10)]]
                 else [succeeded_event])
              else
                (if Util_evalQExpression (fs_operator td) (inode_total fi) (fs_limit_absolute td)
                 then [Event_post Event_Resource STATE_FAILED (fs_action td)
                         (Str ''inode usage %ld matches resource limit [inode usage%s%ld]'')
                         [Int_arg (inode_total fi), Str (operatorshortnames H (fs_operator td)),
                          Int_arg (fs_limit_absolute td)]]
                 else [succeeded_event]))
         | RESOURCE_ID_SPACE \<Rightarrow>
             (if fs_limit_percent td \<ge> 0 then
                (if Util_evalQExpression (fs_operator td) (space_percent fi) (fs_limit_percent td)
                 then [Event_post Event_Resource STATE_FAILED (fs_action td)
                         (Str ''space usage %.1f%% matches resource limit [space usage%s%.1f%%]'')
                         [Real_arg (double_div (double_of_int (space_percent fi)) 10),
                          Str (operatorshortnames H (fs_operator td)),
                          Real_arg (double_div (double_of_int (fs_limit_percent td)) 10)]]
                 else [succeeded_event])
              else
                (if Util_evalQExpression (fs_operator td) (space_total fi) (fs_limit_absolute td)
                 then [Event_post Event_Resource STATE_FAILED (fs_action td)
                         (Str ''space usage %ld blocks matches resource limit [space usage%s%ld blocks]'')
                         [Int_arg (space_total fi), Str (operatorshortnames H (fs_operator td)),
                          Int_arg (fs_limit_absolute td)]]
                 else [succeeded_event]))
         | _ \<Rightarrow> [])"

text \<open>
  The expression \<^verbatim>\<open>(int)((1000.0 * (total - free)) / (float)total)\<close> on two counts: the
  difference is converted to \<^verbatim>\<open>double\<close> and multiplied by 1000.0, the total is cast to
  \<^verbatim>\<open>float\<close>, the quotient is a \<^verbatim>\<open>double\<close>, and the cast to \<^verbatim>\<open>int\<close> discards its fraction.
\<close>

definition usage_permille :: "int \<Rightarrow> int \<Rightarrow> int" where
  "usage_permille n_total n_free =
     int_of_double (double_div (double_mul 1000 (double_of_int (n_total - n_free)))
                      (float_of_int n_total))"

text \<open>
  The four assignments of \<^verbatim>\<open>check_filesystem\<close> that follow the call of
  \<^verbatim>\<open>filesystem_usage\<close>.
\<close>

definition filesystem_totals :: "Filesystem_Info \<Rightarrow> Filesystem_Info" where
  "filesystem_totals fi =
     fi\<lparr>inode_percent :=
          (if f_files fi > 0 then usage_permille (f_files fi) (f_filesfree fi) else 0),
        space_percent :=
          (if f_blocks fi > 0 then usage_permille (f_blocks fi) (f_blocksfree fi) else 0),
        inode_total := f_files fi - f_filesfree fi,
        space_total := f_blocks fi - f_blocksfreetotal fi\<rparr>"

text \<open>
  What the system calls of \<^verbatim>\<open>check_filesystem\<close> return: the results of \<^verbatim>\<open>lstat\<close> on the
  path, of \<^verbatim>\<open>realpath\<close> (the text of \<^verbatim>\<open>STRERROR\<close> when it fails) and of \<^verbatim>\<open>stat\<close> on the
  resolved path, and \<^verbatim>\<open>filesystem_usage\<close>, which fills the snapshot or fails.
\<close>

record Stat =
  stat_mode :: "32 word"
  stat_uid :: int
  stat_gid :: int

record Filesystem_Probe =
  lstat_result :: "Stat option"
  realpath_result :: "string + string"
  stat_result :: "Stat option"
  filesystem_usage :: "Info \<Rightarrow> string \<Rightarrow> Info option"

text \<open>\<^verbatim>\<open>S_ISLNK\<close> of \<^verbatim>\<open>sys/stat.h\<close>: the file type bits \<^verbatim>\<open>0170000\<close> are \<^verbatim>\<open>0120000\<close>.\<close>

definition S_ISLNK :: "32 word \<Rightarrow> bool" where
  "S_ISLNK m \<longleftrightarrow> m AND 0xF000 = 0xA000"

text \<open>
  The start of \<^verbatim>\<open>check_filesystem\<close>, up to the event that the filesystem exists: either
  the events of a fatal return, or the path \<^verbatim>\<open>p\<close>, the \<^verbatim>\<open>stat_buf\<close> and the events so far.
\<close>

definition resolve_filesystem ::
  "Filesystem_Probe \<Rightarrow> Service \<Rightarrow> Event list + (string \<times> Stat \<times> Event list)" where
  "resolve_filesystem env s =
     (case lstat_result env of
        None \<Rightarrow> Inl [Event_post Event_Nonexist STATE_FAILED (action_NONEXIST s)
                       (Str ''filesystem doesn't exist'') []]
      | Some st \<Rightarrow>
          if S_ISLNK (stat_mode st) then
            (case realpath_result env of
               Inl err \<Rightarrow>
                 Inl [Event_post Event_Nonexist STATE_FAILED (action_NONEXIST s)
                        (Str ''filesystem symbolic link error -- %s'') [Str err]]
             | Inr p \<Rightarrow>
                 (let ev = Event_post Event_Nonexist STATE_SUCCEEDED (action_NONEXIST s)
                             (Str ''filesystem symbolic link %s -> %s'') [Str (path s), Str p]
                  in case stat_result env of
                       None \<Rightarrow>
                         Inl [ev, Event_post Event_Nonexist STATE_FAILED (action_NONEXIST s)
                                    (Str ''filesystem doesn't exist'') []]
                     | Some st1 \<Rightarrow> Inr (p, st1, [ev])))
          else Inr (path s, st, []))"

text \<open>
  \<^verbatim>\<open>check_filesystem(s)\<close>: the returned flag, the service and the posted events. When
  \<^verbatim>\<open>filesystem_usage\<close> fails, the snapshot is left as it was before the call.
\<close>

definition check_filesystem ::
  "Monit_h \<Rightarrow> Filesystem_Probe \<Rightarrow> Service \<Rightarrow> bool \<times> Service \<times> Event list" where
  "check_filesystem H env s =
     (case resolve_filesystem env s of
        Inl evs \<Rightarrow> (False, s, evs)
      | Inr (p, st, evs0) \<Rightarrow>
          (let ev_exists = Event_post Event_Nonexist STATE_SUCCEEDED (action_NONEXIST s)
                             (Str ''filesystem exists'') [];
               s1 = s\<lparr>inf := (inf s)\<lparr>st_mode := stat_mode st, st_uid := stat_uid st,
                                       st_gid := stat_gid st\<rparr>\<rparr>
           in case filesystem_usage env (inf s1) p of
                None \<Rightarrow>
                  (False, s1,
                   evs0 @ [ev_exists,
                           Event_post Event_Data STATE_FAILED (action_DATA s1)
                             (Str ''unable to read filesystem %s state'') [Str p]])
              | Some inf2 \<Rightarrow>
                  (let s2 = s1\<lparr>inf := inf2\<lparr>priv_filesystem :=
                                    filesystem_totals (priv_filesystem inf2)\<rparr>\<rparr>
                   in (True, s2,
                       evs0 @ [ev_exists,
                               Event_post Event_Data STATE_SUCCEEDED (action_DATA s2)
                                 (Str ''succeeded getting filesystem statistic for %s'') [Str p]]
                       @ (case perm s2 of None \<Rightarrow> [] | Some pm \<Rightarrow> check_perm s2 pm)
                       @ (case uid s2 of None \<Rightarrow> [] | Some u \<Rightarrow> check_uid s2 u)
                       @ (case gid s2 of None \<Rightarrow> [] | Some g \<Rightarrow> check_gid s2 g)
                       @ check_filesystem_flags s2
                       @ concat (map (check_filesystem_resources H s2) (filesystemlist s2))))))"

subsection \<open>Concrete values\<close>

text \<open>
  Values for the concrete instances of the theorems: the macros of \<^verbatim>\<open>monit.h\<close> with the
  values of the monit distribution, and a service with empty lists and a zero snapshot.
\<close>

definition example_H :: Monit_h where
  "example_H = \<lparr>MONITOR_INIT = 2, MONITOR_WAITING = 4, STRLEN = 256, sizeof_hash = 65,
     actionnames = (\<lambda>i. ''alert''), icmpnames = (\<lambda>i. ''Echo Request''),
     operatorshortnames = (\<lambda>operator. ''>='')\<rparr>"

definition example_action :: EventAction where
  "example_action = \<lparr>failed = \<lparr>action_id = 1\<rparr>, succeeded = \<lparr>action_id = 1\<rparr>\<rparr>"

definition example_info :: Info where
  "example_info = \<lparr>st_mode = 0, st_uid = 0, st_gid = 0, timestamp = 0,
     priv_file = \<lparr>st_size = 0, st_ino = 0, st_ino_prev = 0, cs_sum = [], readpos = 0\<rparr>,
     priv_filesystem = \<lparr>f_files = 0, f_filesfree = 0, f_blocks = 0, f_blocksfree = 0,
       f_blocksfreetotal = 0, flags = 0, flags_old = 0, inode_percent = 0,
       space_percent = 0, inode_total = 0, space_total = 0\<rparr>,
     priv_process = \<lparr>pid = 0, pid_old = 0, ppid = 0, ppid_old = 0, status_flag = 0,
       cpu_percent = 0, total_cpu_percent = 0, mem_percent = 0, mem_kbyte = 0,
       total_mem_kbyte = 0, total_mem_percent = 0, children = 0, uptime = 0\<rparr>\<rparr>"

definition example_service :: Service where
  "example_service = \<lparr>name = ''svc'', path = ''/tmp/svc'', type_s = TYPE_FILE, monitor = 1,
     visited = False,
     every = \<lparr>every_type = EVERY_CYCLE, cycle_number = 0, cycle_counter = 0, cron = []\<rparr>,
     nstart = 0, ncycle = 0, actionratelist = [], portlist = [], icmplist = [],
     perm = None, uid = None, gid = None, filesystemlist = [], checksum = None,
     sizelist = [], timestamplist = [], matchlist = [], matchignorelist = [],
     statuslist = [],
     program = \<lparr>prog_P = None, started = 0, timeout = 0, exitStatus = 0\<rparr>,
     inf = example_info,
     action_DATA = example_action, action_EXEC = example_action,
     action_NONEXIST = example_action, action_PID = example_action,
     action_PPID = example_action, action_FSFLAG = example_action\<rparr>"

definition example_port :: Port where
  "example_port = \<lparr>retry = 3, response = 0, is_available = False,
     port_action = example_action, protocol_name = ''DEFAULT'', protocol_is_default = True,
     port_description = ''INET[localhost:80]''\<rparr>"

definition attempt_ok :: Attempt where
  "attempt_ok = \<lparr>t1_sec = 100, t1_usec = 0, socket_create = True, socket_is_dgram = False,
     socket_is_ready = True, protocol_check = True, strerror = [], socket_getError = [],
     t2_sec = 100, t2_usec = 250000\<rparr>"

definition attempt_refused :: Attempt where
  "attempt_refused = attempt_ok\<lparr>socket_create := False, strerror := ''Connection refused''\<rparr>"

text \<open>The first pass cannot open the socket, every later pass succeeds.\<close>

definition refused_then_ok :: "nat \<Rightarrow> Attempt" where
  "refused_then_ok k = (if k = 0 then attempt_refused else attempt_ok)"

definition example_icmp :: Icmp where
  "example_icmp = \<lparr>icmp_type = ICMP_ECHO, icmp_timeout = 5, icmp_count = 3,
     icmp_response = 0, icmp_is_available = True, icmp_action = example_action\<rparr>"

text \<open>A host with two echo tests and one port; the second echo gets no reply.\<close>

definition example_host :: Service where
  "example_host = example_service\<lparr>type_s := TYPE_HOST, path := ''192.0.2.1'',
     icmplist := [example_icmp, example_icmp], portlist := [example_port]\<rparr>"

definition second_echo_lost :: "nat \<Rightarrow> string \<Rightarrow> int \<Rightarrow> int \<Rightarrow> real" where
  "second_echo_lost k host tmo cnt = (if k = 1 then - 1 else 0.002)"

text \<open>
  A file of 100 bytes with the timestamp 5000, a size rule \<open>size > 50\<close>, a size rule for
  changes and a further size rule \<open>size < 10\<close> behind it; the same for timestamps.
\<close>

definition example_size_value :: Size where
  "example_size_value = \<lparr>sz_operator = Operator_Greater, sz_size = 50, sz_initialized = False,
     sz_test_changes = False, sz_action = example_action\<rparr>"

definition example_size_changes :: Size where
  "example_size_changes = \<lparr>sz_operator = Operator_Equal, sz_size = 70, sz_initialized = True,
     sz_test_changes = True, sz_action = example_action\<rparr>"

definition example_timestamp_value :: Timestamp where
  "example_timestamp_value = \<lparr>ts_operator = Operator_Greater, ts_time = 3600,
     ts_timestamp = 0, ts_test_changes = False, ts_action = example_action\<rparr>"

definition example_timestamp_changes :: Timestamp where
  "example_timestamp_changes = \<lparr>ts_operator = Operator_Equal, ts_time = 0,
     ts_timestamp = 5000, ts_test_changes = True, ts_action = example_action\<rparr>"

definition example_file :: Service where
  "example_file = example_service\<lparr>
     inf := example_info\<lparr>timestamp := 5000,
              priv_file := (priv_file example_info)\<lparr>st_size := 100\<rparr>\<rparr>,
     sizelist := [example_size_value, example_size_changes,
                  example_size_value\<lparr>sz_operator := Operator_Less, sz_size := 10\<rparr>],
     timestamplist := [example_timestamp_value, example_timestamp_changes,
                       example_timestamp_value\<lparr>ts_operator := Operator_Less\<rparr>]\<rparr>"

text \<open>An initialized MD5 descriptor in \<^verbatim>\<open>test_changes\<close> mode, and two hashes.\<close>

definition example_md5_a :: string where
  "example_md5_a = ''d41d8cd98f00b204e9800998ecf8427e''"

definition example_md5_b :: string where
  "example_md5_b = ''9e107d9d372bb6826bd81d3542a419d6''"

definition example_checksum :: Checksum where
  "example_checksum = \<lparr>cs_type = HASH_MD5, cs_hash = example_md5_a, cs_initialized = True,
     cs_test_changes = True, cs_action = example_action\<rparr>"

text \<open>
  A file that holds one line of 600 bytes: without a newline at its end, and with one.
  The service has read nothing of it yet.
\<close>

definition example_long_file :: File_Probe where
  "example_long_file = \<lparr>fopen_ok = True, file_bytes = replicate 600 CHR ''a'',
     fseek_fails = (\<lambda>pos. False), fgets_fails = (\<lambda>pos. False)\<rparr>"

definition example_long_line :: File_Probe where
  "example_long_line = example_long_file\<lparr>file_bytes := replicate 599 CHR ''a'' @ [newline]\<rparr>"

definition example_match :: Match where
  "example_match = \<lparr>match_not = False, match_string = ''a'', match_log = None,
     match_action = example_action\<rparr>"

definition example_log_service :: Service where
  "example_log_service = example_service\<lparr>
     inf := example_info\<lparr>priv_file := (priv_file example_info)\<lparr>st_size := 600\<rparr>\<rparr>,
     matchlist := [example_match]\<rparr>"

text \<open>
  A system with the load average 0.1875 and the rule \<open>loadavg(1min) \<ge> 0.2\<close>; a filesystem
  with 3 inodes of which 1 is free, and with 8 blocks of which 3 are free.
\<close>

definition example_systeminfo :: SystemInfo where
  "example_systeminfo = \<lparr>total_cpu_user_percent = 125, total_cpu_syst_percent = 30,
     total_cpu_wait_percent = 0, sys_total_mem_percent = 500, sys_total_mem_kbyte = 4096,
     total_swap_percent = 0, total_swap_kbyte = 0, loadavg = (\<lambda>i. 3 / 16)\<rparr>"

definition example_load_rule :: Resource where
  "example_load_rule = \<lparr>resource_id = RESOURCE_ID_LOAD1,
     res_operator = Operator_GreaterOrEqual, res_limit = 2, res_action = example_action\<rparr>"

definition example_filesystem_info :: Filesystem_Info where
  "example_filesystem_info = (priv_filesystem example_info)\<lparr>f_files := 3, f_filesfree := 1,
     f_blocks := 8, f_blocksfree := 3, f_blocksfreetotal := 3\<rparr>"

definition example_filesystem_probe :: Filesystem_Probe where
  "example_filesystem_probe = \<lparr>lstat_result = Some \<lparr>stat_mode = 0x61B0, stat_uid = 0, stat_gid = 6\<rparr>,
     realpath_result = Inl [], stat_result = None,
     filesystem_usage = (\<lambda>i p. Some (i\<lparr>priv_filesystem := example_filesystem_info\<rparr>))\<rparr>"

definition example_inode_rule :: Filesystem where
  "example_inode_rule = \<lparr>fs_resource = RESOURCE_ID_INODE, fs_operator = Operator_GreaterOrEqual,
     fs_limit_percent = 667, fs_limit_absolute = - 1, fs_action = example_action\<rparr>"

text \<open>The rule \<open>memory usage \<ge> 40%\<close> of the system service, and \<open>space usage \<ge> 60%\<close>.\<close>

definition example_mem_rule :: Resource where
  "example_mem_rule = \<lparr>resource_id = RESOURCE_ID_MEM_PERCENT,
     res_operator = Operator_GreaterOrEqual, res_limit = 400, res_action = example_action\<rparr>"

definition example_space_rule :: Filesystem where
  "example_space_rule = \<lparr>fs_resource = RESOURCE_ID_SPACE, fs_operator = Operator_GreaterOrEqual,
     fs_limit_percent = 600, fs_limit_absolute = - 1, fs_action = example_action\<rparr>"

text \<open>Collaborators for which every pass succeeds, and for which every line matches.\<close>

definition always_ok :: "nat \<Rightarrow> Attempt" where
  "always_ok k = attempt_ok"

definition match_every_line :: "Match \<Rightarrow> string \<Rightarrow> int" where
  "match_every_line ml line = 0"

text \<open>
  The file with its size rules only, and a directory with the timestamp 5000 and the
  timestamp rules only.
\<close>

definition example_size_only :: Service where
  "example_size_only = example_file\<lparr>timestamplist := []\<rparr>"

definition example_directory :: Service where
  "example_directory = example_file\<lparr>type_s := TYPE_DIRECTORY, sizelist := []\<rparr>"



section \<open>Properties\<close>

subsection \<open>check_skip\<close>

lemma check_skip_waiting:
  assumes "\<not> visited s" and "every_type (every s) = EVERY_SKIPCYCLES"
    and "cycle_counter (every s) + 1 < cycle_number (every s)"
  shows "check_skip H incron s t =
     (True, s\<lparr>every := (every s)\<lparr>cycle_counter := cycle_counter (every s) + 1\<rparr>,
               monitor := monitor s OR MONITOR_WAITING H\<rparr>)"
  using assms by (simp add: check_skip_def Let_def)

lemma check_skip_due:
  assumes "\<not> visited s" and "every_type (every s) = EVERY_SKIPCYCLES"
    and "\<not> cycle_counter (every s) + 1 < cycle_number (every s)"
  shows "check_skip H incron s t =
     (False, s\<lparr>every := (every s)\<lparr>cycle_counter := 0\<rparr>,
                monitor := monitor s AND NOT (MONITOR_WAITING H)\<rparr>)"
  using assms by (simp add: check_skip_def Let_def)

lemma word_or_and_self: "(m OR w) AND w = (w :: 32 word)"
  by (auto simp: bit_eq_iff bit_and_iff bit_or_iff)

lemma word_and_not_and_self: "(m AND NOT w) AND w = (0 :: 32 word)"
  by (simp add: bit_eq_iff bit_and_iff bit_not_iff)

lemma check_skip_cycles_from:
  assumes "\<not> visited s" and "every_type (every s) = EVERY_SKIPCYCLES"
    and "0 \<le> cycle_counter (every s)" and "cycle_counter (every s) < cycle_number (every s)"
    and "length ts = nat (cycle_number (every s) - cycle_counter (every s))"
  shows "map fst (check_skip_cycles H incron s ts) = replicate (length ts - 1) True @ [False]
       \<and> list_all (skip_ok H) (check_skip_cycles H incron s ts)
       \<and> every (snd (last (check_skip_cycles H incron s ts))) = (every s)\<lparr>cycle_counter := 0\<rparr>
       \<and> \<not> visited (snd (last (check_skip_cycles H incron s ts)))"
  using assms
proof (induction ts arbitrary: s)
  case Nil
  then show ?case by simp
next
  case (Cons t ts)
  show ?case
  proof (cases "cycle_counter (every s) + 1 < cycle_number (every s)")
    case True
    let ?s1 = "s\<lparr>every := (every s)\<lparr>cycle_counter := cycle_counter (every s) + 1\<rparr>,
               monitor := monitor s OR MONITOR_WAITING H\<rparr>"
    have step: "check_skip H incron s t = (True, ?s1)"
      using Cons.prems(1,2) True by (rule check_skip_waiting)
    have len: "length ts = nat (cycle_number (every ?s1) - cycle_counter (every ?s1))"
      using Cons.prems(5) True by simp
    have ne: "ts \<noteq> []" using len True by auto
    have IH: "map fst (check_skip_cycles H incron ?s1 ts) = replicate (length ts - 1) True @ [False]
       \<and> list_all (skip_ok H) (check_skip_cycles H incron ?s1 ts)
       \<and> every (snd (last (check_skip_cycles H incron ?s1 ts))) = (every ?s1)\<lparr>cycle_counter := 0\<rparr>
       \<and> \<not> visited (snd (last (check_skip_cycles H incron ?s1 ts)))"
      using Cons.prems(1,2,3) True len by (intro Cons.IH) simp_all
    have ne2: "check_skip_cycles H incron ?s1 ts \<noteq> []"
      using ne by (cases ts) (simp_all add: Let_def)
    have rep: "True # replicate (length ts - 1) True = replicate (length ts) True"
      using ne by (cases ts) simp_all
    have ok: "skip_ok H (True, ?s1)"
      by (simp add: skip_ok_def word_or_and_self)
    show ?thesis
      using IH ne2 rep ok by (simp add: step)
  next
    case False
    let ?s1 = "s\<lparr>every := (every s)\<lparr>cycle_counter := 0\<rparr>,
                monitor := monitor s AND NOT (MONITOR_WAITING H)\<rparr>"
    have step: "check_skip H incron s t = (False, ?s1)"
      using Cons.prems(1,2) False by (rule check_skip_due)
    have "length (t # ts) = 1" using Cons.prems(4,5) False by simp
    then have ts: "ts = []" by simp
    have ok: "skip_ok H (False, ?s1)"
      by (simp add: skip_ok_def word_and_not_and_self)
    show ?thesis
      using Cons.prems(1) ok by (simp add: step ts)
  qed
qed

text \<open>
  C7. A service that is not visited, with the schedule \<^verbatim>\<open>EVERY_SKIPCYCLES\<close>, the
  parameter \<open>N \<ge> 1\<close> and the counter 0: in \<open>N\<close> consecutive calls \<^verbatim>\<open>check_skip\<close>
  returns true in each of the first \<open>N - 1\<close> (and sets \<^verbatim>\<open>MONITOR_WAITING\<close>) and false in
  the \<open>N\<close>-th (and clears the flag); then the counter is 0 again and the schedule is as
  at the start, so the pattern repeats.
\<close>

theorem check_skip_every_n:
  assumes "\<not> visited s" and "every_type (every s) = EVERY_SKIPCYCLES"
    and "cycle_counter (every s) = 0" and "cycle_number (every s) = N" and "1 \<le> N"
    and "length ts = nat N"
  shows "map fst (check_skip_cycles H incron s ts) = replicate (nat N - 1) True @ [False]
       \<and> list_all (skip_ok H) (check_skip_cycles H incron s ts)
       \<and> every (snd (last (check_skip_cycles H incron s ts))) = every s
       \<and> \<not> visited (snd (last (check_skip_cycles H incron s ts)))"
proof -
  have "length ts = nat (cycle_number (every s) - cycle_counter (every s))"
    using assms by simp
  from check_skip_cycles_from [OF assms(1,2) _ _ this, of H incron] assms
  show ?thesis by simp
qed

theorem check_skip_every_n_witness:
  "map fst (check_skip_cycles example_H (\<lambda>c t. False)
       (example_service\<lparr>every := \<lparr>every_type = EVERY_SKIPCYCLES, cycle_number = 3,
                                    cycle_counter = 0, cron = []\<rparr>\<rparr>) [100, 200, 300])
   = [True, True, False]"
  using check_skip_every_n [of "example_service\<lparr>every := \<lparr>every_type = EVERY_SKIPCYCLES,
      cycle_number = 3, cycle_counter = 0, cron = []\<rparr>\<rparr>" 3 "[100, 200, 300]"
      example_H "\<lambda>c t. False"]
  by (simp add: example_service_def numeral_3_eq_3)

subsection \<open>check_connection\<close>

lemma connection_attempt_fails:
  "\<not> attempt_succeeds a p \<Longrightarrow>
     connection_attempt a p rv rep = (False, attempt_report a p, p)"
  by (auto simp: attempt_succeeds_def connection_attempt_def attempt_report_def)

lemma connection_attempt_succeeds:
  "attempt_succeeds a p \<Longrightarrow>
     connection_attempt a p rv rep = (rv, rep, p\<lparr>response := attempt_response a\<rparr>)"
  by (auto simp: attempt_succeeds_def connection_attempt_def attempt_response_def)

lemma check_connection_retry_all_fail:
  assumes "\<forall>i<max 1 (nat rc). \<not> attempt_succeeds (env (k + i)) p"
  shows "check_connection_retry env s p k rc rv rep =
     \<lparr>cr_port = p\<lparr>response := - 1, is_available := False\<rparr>,
      cr_events = [Event_post Event_Connection STATE_FAILED (port_action p)
                     (attempt_report (env (k + max 1 (nat rc) - 1)) p) []],
      cr_attempts = k + max 1 (nat rc)\<rparr>"
  using assms
proof (induction "nat rc - 1" arbitrary: rc k rv rep)
  case 0
  then have rc: "\<not> rc > 1" and m: "max 1 (nat rc) = 1"
    and m': "max (Suc 0) (nat rc) = Suc 0" by auto
  from "0.prems" m have "\<not> attempt_succeeds (env k) p" by simp
  then have ca: "connection_attempt (env k) p rv rep = (False, attempt_report (env k) p, p)"
    by (rule connection_attempt_fails)
  show ?case
    by (subst check_connection_retry.simps) (simp add: ca rc m')
next
  case (Suc n)
  then have rc: "rc > 1" and m: "max 1 (nat rc) = Suc (max 1 (nat (rc - 1)))" by auto
  from Suc.prems have "\<not> attempt_succeeds (env k) p" by (metis add_0_right max.strict_coboundedI1 zero_less_one)
  then have ca: "connection_attempt (env k) p rv rep = (False, attempt_report (env k) p, p)"
    by (rule connection_attempt_fails)
  have n: "n = nat (rc - 1) - 1" using Suc.hyps(2) by simp
  have later: "\<forall>i<max 1 (nat (rc - 1)). \<not> attempt_succeeds (env (Suc k + i)) p"
  proof (intro allI impI)
    fix i assume "i < max 1 (nat (rc - 1))"
    then have "Suc i < max 1 (nat rc)" using m by simp
    with Suc.prems have "\<not> attempt_succeeds (env (k + Suc i)) p" by blast
    then show "\<not> attempt_succeeds (env (Suc k + i)) p" by simp
  qed
  have IH: "check_connection_retry env s p (Suc k) (rc - 1) False (attempt_report (env k) p) =
     \<lparr>cr_port = p\<lparr>response := - 1, is_available := False\<rparr>,
      cr_events = [Event_post Event_Connection STATE_FAILED (port_action p)
                     (attempt_report (env (Suc k + max 1 (nat (rc - 1)) - 1)) p) []],
      cr_attempts = Suc k + max 1 (nat (rc - 1))\<rparr>"
    using n later by (rule Suc.hyps(1))
  have unf: "check_connection_retry env s p k rc rv rep
      = check_connection_retry env s p (Suc k) (rc - 1) False (attempt_report (env k) p)"
    by (subst check_connection_retry.simps) (simp add: ca rc)
  have e: "Suc k + max 1 (nat (rc - 1)) - 1 = k + max 1 (nat rc) - 1"
    and e2: "Suc k + max 1 (nat (rc - 1)) = k + max 1 (nat rc)"
    using m by simp_all
  show ?case
    by (simp only: unf IH e e2)
qed

lemma check_connection_retry_one_event:
  "\<exists>st fmt args. cr_events (check_connection_retry env s p k rc rv rep)
      = [Event_post Event_Connection st (port_action p) fmt args]"
proof (induction "nat rc - 1" arbitrary: rc k rv rep p)
  case 0
  then have rc: "\<not> rc > 1" by auto
  obtain rv1 rep1 p1 where ca: "connection_attempt (env k) p rv rep = (rv1, rep1, p1)"
    by (cases "connection_attempt (env k) p rv rep") auto
  then have pa: "port_action p1 = port_action p"
    by (auto simp: connection_attempt_def split: if_splits)
  show ?case
    by (subst check_connection_retry.simps) (auto simp: ca rc pa)
next
  case (Suc n)
  then have rc: "rc > 1" by auto
  obtain rv1 rep1 p1 where ca: "connection_attempt (env k) p rv rep = (rv1, rep1, p1)"
    by (cases "connection_attempt (env k) p rv rep") auto
  then have pa: "port_action p1 = port_action p"
    by (auto simp: connection_attempt_def split: if_splits)
  have n: "n = nat (rc - 1) - 1" using Suc.hyps(2) by simp
  note IH = Suc.hyps(1) [OF n, of p1 "Suc k"]
  show ?case
  proof (cases rv1)
    case True
    then show ?thesis
      by (subst check_connection_retry.simps) (auto simp: ca rc pa)
  next
    case False
    then have "check_connection_retry env s p k rc rv rep
      = check_connection_retry env s p1 (Suc k) (rc - 1) rv1 rep1"
      by (subst check_connection_retry.simps) (simp add: ca rc)
    with IH [of rv1 rep1] pa show ?thesis by simp
  qed
qed


lemma connection_attempt_port:
  "connection_attempt a p rv rep = (rv1, rep1, p1) \<Longrightarrow>
     p1\<lparr>response := x, is_available := b\<rparr> = p\<lparr>response := x, is_available := b\<rparr>
     \<and> attempt_succeeds a' p1 = attempt_succeeds a' p
     \<and> attempt_report a' p1 = attempt_report a' p
     \<and> port_action p1 = port_action p"
  by (auto simp: connection_attempt_def attempt_succeeds_def attempt_report_def
      split: if_splits)

lemma connection_attempt_true:
  "connection_attempt a p rv rep = (True, rep1, p1) \<Longrightarrow> attempt_succeeds a p"
  by (auto simp: connection_attempt_def attempt_succeeds_def split: if_splits)

lemma check_connection_retry_last_fails:
  assumes "\<not> attempt_succeeds
             (env (cr_attempts (check_connection_retry env s p k rc rv rep) - 1)) p"
  shows "cr_port (check_connection_retry env s p k rc rv rep)
           = p\<lparr>response := - 1, is_available := False\<rparr>
     \<and> cr_events (check_connection_retry env s p k rc rv rep)
           = [Event_post Event_Connection STATE_FAILED (port_action p)
                (attempt_report
                   (env (cr_attempts (check_connection_retry env s p k rc rv rep) - 1)) p) []]"
  using assms
proof (induction "nat rc - 1" arbitrary: rc k rv rep p)
  case 0
  then have rc: "\<not> rc > 1" by auto
  obtain rv1 rep1 p1 where ca: "connection_attempt (env k) p rv rep = (rv1, rep1, p1)"
    by (cases "connection_attempt (env k) p rv rep") auto
  have att: "cr_attempts (check_connection_retry env s p k rc rv rep) = Suc k"
    by (subst check_connection_retry.simps) (simp add: ca rc)
  with "0.prems" have f: "\<not> attempt_succeeds (env k) p" by simp
  from connection_attempt_fails [OF f, of rv rep] ca
  have v: "rv1 = False" "rep1 = attempt_report (env k) p" "p1 = p" by simp_all
  show ?case
    unfolding att by (subst (1 2) check_connection_retry.simps) (simp add: ca rc v)
next
  case (Suc n)
  then have rc: "rc > 1" by auto
  obtain rv1 rep1 p1 where ca: "connection_attempt (env k) p rv rep = (rv1, rep1, p1)"
    by (cases "connection_attempt (env k) p rv rep") auto
  note inv = connection_attempt_port [OF ca]
  show ?case
  proof (cases rv1)
    case True
    then have att: "cr_attempts (check_connection_retry env s p k rc rv rep) = Suc k"
      by (subst check_connection_retry.simps) (simp add: ca rc)
    from ca True have "attempt_succeeds (env k) p"
      by (auto intro: connection_attempt_true)
    with Suc.prems att show ?thesis by simp
  next
    case False
    have n: "n = nat (rc - 1) - 1" using Suc.hyps(2) by simp
    have unf: "check_connection_retry env s p k rc rv rep
      = check_connection_retry env s p1 (Suc k) (rc - 1) rv1 rep1"
      using False by (subst check_connection_retry.simps) (simp add: ca rc)
    from Suc.prems have "\<not> attempt_succeeds
        (env (cr_attempts (check_connection_retry env s p1 (Suc k) (rc - 1) rv1 rep1) - 1)) p1"
      unfolding unf by (simp add: inv)
    from Suc.hyps(1) [OF n this] show ?thesis
      unfolding unf by (simp add: inv)
  qed
qed

lemma check_connection_first_succeeds:
  assumes "attempt_succeeds (env 0) p"
  shows "check_connection env s p =
     \<lparr>cr_port = p\<lparr>response := attempt_response (env 0), is_available := True\<rparr>,
      cr_events = [Event_post Event_Connection STATE_SUCCEEDED (port_action p)
                     (Str ''connection succeeded to %s'') [Str (port_description p)]],
      cr_attempts = 1\<rparr>"
  unfolding check_connection_def
  by (subst check_connection_retry.simps)
     (simp add: connection_attempt_succeeds [OF assms])

text \<open>
  C1 (amended). \<^verbatim>\<open>check_connection\<close> posts exactly one event, a \<^verbatim>\<open>Connection\<close> event
  with the action of the port. When the first attempt succeeds, it makes exactly one
  attempt, stores the measured response time, sets \<^verbatim>\<open>is_available\<close> to true and the
  event is \<^verbatim>\<open>SUCCEEDED\<close>. When every attempt fails, it makes \<open>max 1 p.retry\<close> attempts
  in total. Whenever the last attempt that it makes fails, it sets the response to -1
  and \<^verbatim>\<open>is_available\<close> to false, and the event is \<^verbatim>\<open>FAILED\<close> with the report that this
  attempt recorded.
\<close>

theorem check_connection_outcomes:
  "(\<exists>st fmt args. cr_events (check_connection env s p)
        = [Event_post Event_Connection st (port_action p) fmt args])
   \<and> (attempt_succeeds (env 0) p \<longrightarrow>
        cr_attempts (check_connection env s p) = 1
        \<and> is_available (cr_port (check_connection env s p))
        \<and> response (cr_port (check_connection env s p)) = attempt_response (env 0)
        \<and> cr_events (check_connection env s p)
            = [Event_post Event_Connection STATE_SUCCEEDED (port_action p)
                 (Str ''connection succeeded to %s'') [Str (port_description p)]])
   \<and> ((\<forall>i<max 1 (nat (retry p)). \<not> attempt_succeeds (env i) p) \<longrightarrow>
        cr_attempts (check_connection env s p) = max 1 (nat (retry p))
        \<and> \<not> is_available (cr_port (check_connection env s p))
        \<and> response (cr_port (check_connection env s p)) = - 1
        \<and> cr_events (check_connection env s p)
            = [Event_post Event_Connection STATE_FAILED (port_action p)
                 (attempt_report (env (max 1 (nat (retry p)) - 1)) p) []])
   \<and> (\<not> attempt_succeeds (env (cr_attempts (check_connection env s p) - 1)) p \<longrightarrow>
        cr_port (check_connection env s p) = p\<lparr>response := - 1, is_available := False\<rparr>
        \<and> cr_events (check_connection env s p)
            = [Event_post Event_Connection STATE_FAILED (port_action p)
                 (attempt_report (env (cr_attempts (check_connection env s p) - 1)) p) []])"
proof (intro conjI impI)
  assume "\<not> attempt_succeeds (env (cr_attempts (check_connection env s p) - 1)) p"
  then have l: "cr_port (check_connection env s p) = p\<lparr>response := - 1, is_available := False\<rparr>
        \<and> cr_events (check_connection env s p)
            = [Event_post Event_Connection STATE_FAILED (port_action p)
                 (attempt_report (env (cr_attempts (check_connection env s p) - 1)) p) []]"
    unfolding check_connection_def by (rule check_connection_retry_last_fails)
  from l show "cr_port (check_connection env s p) = p\<lparr>response := - 1, is_available := False\<rparr>"
    by simp
  from l show "cr_events (check_connection env s p)
            = [Event_post Event_Connection STATE_FAILED (port_action p)
                 (attempt_report (env (cr_attempts (check_connection env s p) - 1)) p) []]"
    by simp
next
  show "\<exists>st fmt args. cr_events (check_connection env s p)
        = [Event_post Event_Connection st (port_action p) fmt args]"
    unfolding check_connection_def by (rule check_connection_retry_one_event)
next
  assume ok: "attempt_succeeds (env 0) p"
  note r = check_connection_first_succeeds [where env = env and p = p and s = s, OF ok]
  show "cr_attempts (check_connection env s p) = 1" by (simp add: r)
  show "is_available (cr_port (check_connection env s p))" by (simp add: r)
  show "response (cr_port (check_connection env s p)) = attempt_response (env 0)"
    by (simp add: r)
  show "cr_events (check_connection env s p)
            = [Event_post Event_Connection STATE_SUCCEEDED (port_action p)
                 (Str ''connection succeeded to %s'') [Str (port_description p)]]"
    by (simp add: r)
next
  assume "\<forall>i<max 1 (nat (retry p)). \<not> attempt_succeeds (env i) p"
  then have "\<forall>i<max 1 (nat (retry p)). \<not> attempt_succeeds (env (0 + i)) p" by simp
  note r = check_connection_retry_all_fail [OF this, of s True "Snprintf [] []"]
  show "cr_attempts (check_connection env s p) = max 1 (nat (retry p))"
    by (simp add: check_connection_def r)
  show "\<not> is_available (cr_port (check_connection env s p))"
    by (simp add: check_connection_def r)
  show "response (cr_port (check_connection env s p)) = - 1"
    by (simp add: check_connection_def r)
  show "cr_events (check_connection env s p)
            = [Event_post Event_Connection STATE_FAILED (port_action p)
                 (attempt_report (env (max 1 (nat (retry p)) - 1)) p) []]"
    by (simp add: check_connection_def r)
qed

theorem check_connection_outcomes_witness:
  "cr_attempts (check_connection (\<lambda>k. attempt_ok) example_service example_port) = 1
   \<and> is_available (cr_port (check_connection (\<lambda>k. attempt_ok) example_service example_port))
   \<and> cr_attempts (check_connection (\<lambda>k. attempt_refused) example_service example_port) = 3
   \<and> response (cr_port (check_connection (\<lambda>k. attempt_refused) example_service example_port)) = - 1
   \<and> map ev_state (cr_events (check_connection (\<lambda>k. attempt_refused) example_service example_port))
       = [STATE_FAILED]"
  using check_connection_outcomes [of "\<lambda>k. attempt_ok" example_service example_port]
    check_connection_outcomes [of "\<lambda>k. attempt_refused" example_service example_port]
  by (simp add: attempt_succeeds_def attempt_ok_def attempt_refused_def example_port_def
      Event_post_def)

text \<open>
  The claim as stated fails. A port with \<^verbatim>\<open>retry = 3\<close> whose first attempt succeeds is
  probed once, not three times. And when the first attempt fails and the second succeeds,
  the variable \<^verbatim>\<open>rv\<close> still holds \<^verbatim>\<open>FALSE\<close> from the first: the event is \<^verbatim>\<open>FAILED\<close>.
\<close>

theorem check_connection_counterexample:
  "retry example_port = 3
   \<and> cr_attempts (check_connection always_ok example_service example_port) = 1
   \<and> attempt_succeeds (refused_then_ok 1) example_port
   \<and> map ev_state (cr_events (check_connection refused_then_ok example_service example_port))
       = [STATE_FAILED]"
  apply (simp add: check_connection_def example_port_def)
  apply (simp add: check_connection_retry.simps connection_attempt_def attempt_ok_def
      attempt_refused_def attempt_succeeds_def Event_post_def refused_then_ok_def
      always_ok_def)
  done

subsection \<open>check_remote_host\<close>

lemma check_icmp_echo_events:
  "\<forall>e\<in>set (snd (check_icmp_echo H r i)). ev_id e = Event_Icmp"
  by (simp add: check_icmp_echo_def Event_post_def Let_def)

lemma check_icmp_echo_available:
  "icmp_is_available (fst (check_icmp_echo H r i)) = (r \<noteq> - 1)"
  by (simp add: check_icmp_echo_def Let_def)

lemma check_icmplist_events:
  "\<forall>e\<in>set (snd (snd (snd (check_icmplist H echo s icmps k lp)))). ev_id e = Event_Icmp"
proof (induction icmps arbitrary: k lp)
  case Nil
  show ?case by simp
next
  case (Cons i icmps)
  show ?case
    using check_icmp_echo_events [of H "echo k (path s) (icmp_timeout i) (icmp_count i)" i]
      Cons.IH [of "Suc k" "Some (fst (check_icmp_echo H (echo k (path s) (icmp_timeout i) (icmp_count i)) i))"]
    by (auto simp: split_def)
qed

lemma check_icmplist_ok:
  "fst (check_icmplist H echo s icmps k lp) \<longleftrightarrow> (\<forall>i\<in>set icmps. icmp_type i = ICMP_ECHO)"
  by (induction icmps arbitrary: k lp) (auto simp: split_def)

lemma check_icmplist_last_ping:
  assumes "\<forall>i\<in>set icmps. icmp_type i = ICMP_ECHO" and "icmps \<noteq> []"
  shows "\<exists>i. fst (snd (snd (check_icmplist H echo s icmps k lp))) = Some i
     \<and> icmp_is_available i
       = (echo (k + length icmps - 1) (path s) (icmp_timeout (last icmps))
            (icmp_count (last icmps)) \<noteq> - 1)"
  using assms
proof (induction icmps arbitrary: k lp)
  case Nil
  then show ?case by simp
next
  case (Cons i icmps)
  let ?i2 = "fst (check_icmp_echo H (echo k (path s) (icmp_timeout i) (icmp_count i)) i)"
  show ?case
  proof (cases "icmps = []")
    case True
    with Cons.prems show ?thesis
      by (simp add: split_def check_icmp_echo_available)
  next
    case False
    from Cons.prems have "\<forall>i\<in>set icmps. icmp_type i = ICMP_ECHO" by simp
    from Cons.IH [OF this False, of "Suc k" "Some ?i2"] Cons.prems False
    show ?thesis by (simp add: split_def)
  qed
qed

text \<open>
  C6. A remote host service for which the last ICMP descriptor that
  \<^verbatim>\<open>check_remote_host\<close> probes reports unavailable (\<^verbatim>\<open>icmp_echo\<close> returned -1 for it):
  the function returns false, posts no \<^verbatim>\<open>Connection\<close> event and leaves the port list as
  it was (no port is probed).
\<close>

theorem check_remote_host_ping_failed:
  assumes "probed_icmps s \<noteq> []"
    and "echo (length (probed_icmps s) - 1) (path s) (icmp_timeout (last (probed_icmps s)))
           (icmp_count (last (probed_icmps s))) = - 1"
  shows "fst (check_remote_host H echo conn s) = False
     \<and> count_events Event_Connection (snd (snd (check_remote_host H echo conn s))) = 0
     \<and> portlist (fst (snd (check_remote_host H echo conn s))) = portlist s"
proof -
  obtain ok icmps lp evs where r: "check_icmplist H echo s (icmplist s) 0 None = (ok, icmps, lp, evs)"
    by (metis prod_cases4)
  have evs: "\<forall>e\<in>set evs. ev_id e = Event_Icmp"
    using check_icmplist_events [of H echo s "icmplist s" 0 None] by (simp add: r)
  then have no: "count_events Event_Connection evs = 0"
    by (auto simp: count_events_def filter_empty_conv)
  show ?thesis
  proof (cases ok)
    case False
    then show ?thesis using no by (simp add: check_remote_host_def r)
  next
    case True
    then have all: "\<forall>i\<in>set (icmplist s). icmp_type i = ICMP_ECHO"
      using check_icmplist_ok [of H echo s "icmplist s" 0 None] by (simp add: r)
    then have p: "probed_icmps s = icmplist s"
      by (simp add: probed_icmps_def)
    with assms(1) have ne: "icmplist s \<noteq> []" by simp
    from check_icmplist_last_ping [OF all ne, of H echo s 0 None] assms(2) p
    obtain i where "lp = Some i" "\<not> icmp_is_available i"
      by (auto simp: r)
    then show ?thesis using no True by (simp add: check_remote_host_def r)
  qed
qed

theorem check_remote_host_ping_failed_witness:
  "fst (check_remote_host example_H second_echo_lost (\<lambda>j k. attempt_ok) example_host) = False
   \<and> count_events Event_Connection
        (snd (snd (check_remote_host example_H second_echo_lost (\<lambda>j k. attempt_ok) example_host))) = 0"
  using check_remote_host_ping_failed [of example_host second_echo_lost example_H "\<lambda>j k. attempt_ok"]
  by (simp add: probed_icmps_def example_host_def example_icmp_def second_echo_lost_def)

subsection \<open>check_process_pid, check_process_ppid, check_filesystem_flags\<close>

text \<open>
  C2 (amended). An invocation of \<^verbatim>\<open>check_process_pid\<close> posts no event when the previous
  pid is -1, and otherwise exactly one event: \<^verbatim>\<open>Pid\<close> \<^verbatim>\<open>CHANGED\<close> when the pid differs
  from the previous one, \<^verbatim>\<open>Pid\<close> \<^verbatim>\<open>CHANGEDNOT\<close> when it does not.
  \<^verbatim>\<open>check_process_ppid\<close> does the same with the previous ppid and the \<^verbatim>\<open>PPid\<close> event.
  \<^verbatim>\<open>check_filesystem_flags\<close> posts exactly one event, \<^verbatim>\<open>Fsflag\<close> \<^verbatim>\<open>CHANGED\<close>, when the
  previous flags are not -1 and differ from the current flags, and no event otherwise.
  The events carry the action that the service binds to their kind.
\<close>

theorem pid_ppid_fsflag_events:
  "map (\<lambda>e. (ev_id e, ev_state e, ev_action e)) (check_process_pid s)
     = (if pid_old (priv_process (inf s)) = - 1 then []
        else [(Event_Pid,
               if pid_old (priv_process (inf s)) \<noteq> pid (priv_process (inf s))
               then STATE_CHANGED else STATE_CHANGEDNOT,
               action_PID s)])
   \<and> map (\<lambda>e. (ev_id e, ev_state e, ev_action e)) (check_process_ppid s)
     = (if ppid_old (priv_process (inf s)) = - 1 then []
        else [(Event_PPid,
               if ppid_old (priv_process (inf s)) \<noteq> ppid (priv_process (inf s))
               then STATE_CHANGED else STATE_CHANGEDNOT,
               action_PPID s)])
   \<and> map (\<lambda>e. (ev_id e, ev_state e, ev_action e)) (check_filesystem_flags s)
     = (if flags_old (priv_filesystem (inf s)) = - 1
           \<or> flags_old (priv_filesystem (inf s)) = flags (priv_filesystem (inf s))
        then [] else [(Event_Fsflag, STATE_CHANGED, action_FSFLAG s)])
   \<and> count_events Event_Pid (check_process_pid s)
     = (if pid_old (priv_process (inf s)) = - 1 then 0 else 1)
   \<and> count_events Event_PPid (check_process_ppid s)
     = (if ppid_old (priv_process (inf s)) = - 1 then 0 else 1)
   \<and> count_events Event_Fsflag (check_filesystem_flags s)
     = (if flags_old (priv_filesystem (inf s)) = - 1
           \<or> flags_old (priv_filesystem (inf s)) = flags (priv_filesystem (inf s))
        then 0 else 1)"
  by (simp add: check_process_pid_def check_process_ppid_def check_filesystem_flags_def
      count_events_def Event_post_def)

theorem pid_ppid_fsflag_events_witness:
  "map (\<lambda>e. (ev_id e, ev_state e, ev_action e))
     (check_process_pid (example_service\<lparr>inf := example_info\<lparr>priv_process :=
        (priv_process example_info)\<lparr>pid_old := 41, pid := 42\<rparr>\<rparr>\<rparr>))
     = [(Event_Pid, STATE_CHANGED, example_action)]
   \<and> map (\<lambda>e. (ev_id e, ev_state e, ev_action e))
     (check_process_ppid (example_service\<lparr>inf := example_info\<lparr>priv_process :=
        (priv_process example_info)\<lparr>pid_old := 41, pid := 42\<rparr>\<rparr>\<rparr>))
     = [(Event_PPid, STATE_CHANGEDNOT, example_action)]
   \<and> map (\<lambda>e. (ev_id e, ev_state e, ev_action e))
     (check_filesystem_flags (example_service\<lparr>inf := example_info\<lparr>priv_filesystem :=
        (priv_filesystem example_info)\<lparr>flags_old := 4096, flags := 4097\<rparr>\<rparr>\<rparr>))
     = [(Event_Fsflag, STATE_CHANGED, example_action)]"
  using pid_ppid_fsflag_events [of "example_service\<lparr>inf := example_info\<lparr>priv_process :=
        (priv_process example_info)\<lparr>pid_old := 41, pid := 42\<rparr>\<rparr>\<rparr>"]
    pid_ppid_fsflag_events [of "example_service\<lparr>inf := example_info\<lparr>priv_filesystem :=
        (priv_filesystem example_info)\<lparr>flags_old := 4096, flags := 4097\<rparr>\<rparr>\<rparr>"]
  by (simp add: example_service_def example_info_def)

text \<open>
  The claim as stated fails: with the previous pid -1 no \<^verbatim>\<open>Pid\<close> event is posted, and
  with unchanged filesystem flags no \<^verbatim>\<open>Fsflag\<close> event is posted.
\<close>

theorem pid_event_counterexample:
  "count_events Event_Pid
     (check_process_pid (example_service\<lparr>inf := example_info\<lparr>priv_process :=
        (priv_process example_info)\<lparr>pid_old := - 1, pid := 42\<rparr>\<rparr>\<rparr>)) = 0
   \<and> count_events Event_Fsflag
     (check_filesystem_flags (example_service\<lparr>inf := example_info\<lparr>priv_filesystem :=
        (priv_filesystem example_info)\<lparr>flags_old := 4096, flags := 4096\<rparr>\<rparr>\<rparr>)) = 0"
  by (simp add: check_process_pid_def check_filesystem_flags_def count_events_def)

subsection \<open>check_program\<close>

text \<open>
  C10. \<^verbatim>\<open>check_program\<close> returns true for every program service, whatever the state
  of the prior child (none, still running within or beyond its timeout, terminated with
  any exit status), whatever the status rules, and whether or not the new child can be
  started.
\<close>

theorem check_program_returns_true:
  "fst (check_program H now spawn s) = True"
  by (simp add: check_program_def check_program_exit_def Let_def split_def
      split: option.split)

text \<open>When \<^verbatim>\<open>Command_execute\<close> fails, the event is \<^verbatim>\<open>Status\<close> \<^verbatim>\<open>FAILED\<close> with the exec action.\<close>

lemma start_program_failure:
  "snd (start_program now (Inl err) s)
     = [Event_post Event_Status STATE_FAILED (action_EXEC s)
          (Str ''failed to execute '%s' -- %s'') [Str (path s), Str err]]"
  by (simp add: start_program_def Let_def)

subsection \<open>Floating point rounding\<close>

lemma pow2_powr: "pow2 e = 2 powr real_of_int e"
  by (simp add: pow2_def powr_int)

lemma pow2_pos: "0 < pow2 e"
  by (simp add: pow2_powr)

lemma pow2_less_iff: "pow2 a < pow2 b \<longleftrightarrow> a < b"
  by (simp add: pow2_powr)

lemma pow2_le_iff: "pow2 a \<le> pow2 b \<longleftrightarrow> a \<le> b"
  by (simp add: pow2_powr)

lemma pow2_add: "pow2 (a + b) = pow2 a * pow2 b"
  by (simp add: pow2_powr powr_add)

lemma pow2_numeral: "pow2 (numeral k) = 2 ^ numeral k" "pow2 0 = 1" "pow2 1 = 2"
  by (simp_all add: pow2_def)

lemma pow2_int: "0 \<le> e \<Longrightarrow> pow2 e = of_int (2 ^ nat e)"
  by (simp add: pow2_def)

lemma pow2_inverse: "e \<le> 0 \<Longrightarrow> pow2 e = 1 / of_int (2 ^ nat (- e))"
  by (cases "e = 0") (simp_all add: pow2_def)

lemma binade_bounds:
  "0 < x \<Longrightarrow> pow2 (binade x) \<le> x \<and> x < pow2 (binade x + 1)"
proof (induction x rule: binade.induct)
  case (1 x)
  consider "2 \<le> x" | "x < 1" | "1 \<le> x" "x < 2" by linarith
  then show ?case
  proof cases
    case 1
    then have b: "binade x = binade (x / 2) + 1" by (subst binade.simps) simp
    from 1 "1.IH"(1) "1.prems"
    have "pow2 (binade (x / 2)) \<le> x / 2 \<and> x / 2 < pow2 (binade (x / 2) + 1)" by simp
    then show ?thesis
      unfolding b by (simp add: pow2_add pow2_numeral)
  next
    case 2
    with "1.prems" have b: "binade x = binade (x * 2) - 1" by (subst binade.simps) simp
    from 2 "1.IH"(2) "1.prems"
    have "pow2 (binade (x * 2)) \<le> x * 2 \<and> x * 2 < pow2 (binade (x * 2) + 1)" by simp
    moreover have "pow2 (binade (x * 2)) = pow2 (binade (x * 2) - 1) * 2"
      using pow2_add [of "binade (x * 2) - 1" 1] by (simp add: pow2_numeral)
    ultimately show ?thesis
      unfolding b by (simp add: pow2_add pow2_numeral)
  next
    case 3
    then have b: "binade x = 0" by (subst binade.simps) simp
    from 3 show ?thesis unfolding b by (simp add: pow2_numeral)
  qed
qed

lemma binade_zero: "binade 0 = 0"
  by (subst binade.simps) simp

lemma binade_less:
  assumes "0 \<le> x" and "x < pow2 n" and "0 < n"
  shows "binade x < n"
proof (cases "x = 0")
  case True
  then show ?thesis using assms(3) by (simp add: binade_zero)
next
  case False
  with assms(1) have "0 < x" by simp
  from binade_bounds [OF this] assms(2) have "pow2 (binade x) < pow2 n" by simp
  then show ?thesis by (simp add: pow2_less_iff)
qed

lemma rne_of_int: "rne (of_int m) = m"
  by (simp add: rne_def)

lemma rne_ge_floor: "\<lfloor>y\<rfloor> \<le> rne y"
  by (simp add: rne_def Let_def)

lemma rne_le_ceiling: "rne y \<le> \<lceil>y\<rceil>"
proof (cases "y = of_int \<lfloor>y\<rfloor>")
  case True
  then have "rne y = \<lfloor>y\<rfloor>" by (metis rne_of_int)
  then show ?thesis by (simp add: floor_le_ceiling)
next
  case False
  then have "\<lceil>y\<rceil> = \<lfloor>y\<rfloor> + 1" by (simp add: ceiling_altdef)
  then show ?thesis by (simp add: rne_def Let_def)
qed

text \<open>An integer of fewer than \<open>p\<close> bits is a value of the format.\<close>

lemma round_to_int:
  assumes "\<bar>n\<bar> < 2 ^ p"
  shows "round_to p (of_int n) = of_int n"
proof -
  let ?e = "binade \<bar>real_of_int n\<bar>"
  have "\<bar>real_of_int n\<bar> < pow2 (int p)" using assms
    by (simp add: pow2_def flip: of_int_abs)
  then have "?e < int p \<or> p = 0"
    using binade_less [of "\<bar>real_of_int n\<bar>" "int p"] by auto
  moreover have "n = 0" if "p = 0" using assms that by simp
  ultimately have e: "?e - int p + 1 \<le> 0 \<or> n = 0" by auto
  show ?thesis
  proof (cases "n = 0")
    case True
    then show ?thesis by (simp add: round_to_def rne_def)
  next
    case False
    with e have le: "?e - int p + 1 \<le> 0" by simp
    let ?m = "2 ^ nat (- (?e - int p + 1)) :: int"
    have u: "pow2 (?e - int p + 1) = 1 / of_int ?m" using le by (rule pow2_inverse)
    have "real_of_int n / pow2 (?e - int p + 1) = of_int (n * ?m)"
      unfolding u by simp
    then have "rne (real_of_int n / pow2 (?e - int p + 1)) = n * ?m"
      by (simp only: rne_of_int)
    then show ?thesis
      unfolding round_to_def Let_def u by simp
  qed
qed

text \<open>
  The double quotient of two integers, when the divisor has no more than 42 bits and the
  quotient is below 2048: its integer part is the integer quotient.
\<close>

lemma round_to_quotient:
  assumes "0 \<le> a" and "0 < t" and "t \<le> 2 ^ 42" and "a < 2048 * t"
  shows "\<lfloor>round_to 53 (real_of_int a / real_of_int t)\<rfloor> = a div t"
    and "0 \<le> round_to 53 (real_of_int a / real_of_int t)"
    and "round_to 53 (real_of_int a / real_of_int t) < 2048"
proof -
  define q where "q = real_of_int a / real_of_int t"
  define k where "k = a div t"
  define e where "e = binade \<bar>q\<bar>"
  define m :: int where "m = 2 ^ nat (52 - e)"
  define r where "r = rne (q * real_of_int m)"
  have q0: "0 \<le> q" using assms by (simp add: q_def)
  have q1: "q < pow2 11" using assms by (simp add: q_def pow2_numeral field_simps)
  have aq: "\<bar>q\<bar> = q" using q0 by (rule abs_of_nonneg)
  have e: "e < 11" unfolding e_def aq using binade_less [of q 11] q0 q1 by simp
  have u: "pow2 (e - int 53 + 1) = 1 / real_of_int m"
    using e pow2_inverse [of "e - 52"] by (simp add: m_def)
  have "(2::int) ^ 42 \<le> 2 ^ nat (52 - e)"
    using e by (intro power_increasing) simp_all
  with assms(3) have tm: "t \<le> m" by (simp add: m_def)
  have m0: "0 < m" by (simp add: m_def)
  have k0: "0 \<le> k" using assms by (simp add: k_def pos_imp_zdiv_nonneg_iff)
  have "\<lfloor>q\<rfloor> = k" unfolding q_def k_def by (rule floor_divide_of_int_eq)
  then have kq: "real_of_int k \<le> q" using of_int_floor_le [of q] by simp
  have "a = k * t + a mod t" by (simp add: k_def)
  moreover have "a mod t \<le> t - 1" using assms(2) pos_mod_bound [of t a] by simp
  ultimately have "a \<le> k * t + t - 1" by linarith
  then have "real_of_int a \<le> real_of_int (k * t + t - 1)" by (simp only: of_int_le_iff)
  then have qk: "q \<le> real_of_int k + 1 - 1 / real_of_int t"
    using assms(2) by (simp add: q_def field_simps)
  have "real_of_int k * real_of_int m \<le> q * real_of_int m"
    using kq m0 by (intro mult_right_mono) simp_all
  then have "real_of_int (k * m) \<le> q * real_of_int m" by simp
  then have "k * m \<le> \<lfloor>q * real_of_int m\<rfloor>" by (simp only: le_floor_iff)
  with rne_ge_floor [of "q * real_of_int m"] have lo: "k * m \<le> r" by (simp add: r_def)
  have "real_of_int t \<le> real_of_int m" using tm by simp
  then have mt: "1 \<le> real_of_int m / real_of_int t" using assms(2) by simp
  have "q * real_of_int m \<le> (real_of_int k + 1 - 1 / real_of_int t) * real_of_int m"
    using qk m0 by (intro mult_right_mono) simp_all
  also have "\<dots> = (real_of_int k + 1) * real_of_int m - real_of_int m / real_of_int t"
    by (simp add: algebra_simps)
  also have "\<dots> \<le> (real_of_int k + 1) * real_of_int m - 1" using mt by simp
  also have "\<dots> = real_of_int ((k + 1) * m - 1)" by simp
  finally have "\<lceil>q * real_of_int m\<rceil> \<le> (k + 1) * m - 1" by (simp only: ceiling_le_iff)
  with rne_le_ceiling [of "q * real_of_int m"] have hi: "r < (k + 1) * m" by (simp add: r_def)
  have R: "round_to 53 q = real_of_int r / real_of_int m"
    unfolding round_to_def Let_def u e_def [symmetric] r_def by simp
  have lo': "real_of_int k \<le> real_of_int r / real_of_int m"
  proof -
    from lo have "real_of_int (k * m) \<le> real_of_int r" by (simp only: of_int_le_iff)
    then show ?thesis using m0 by (simp add: field_simps)
  qed
  have hi': "real_of_int r / real_of_int m < real_of_int k + 1"
  proof -
    from hi have "real_of_int r < real_of_int ((k + 1) * m)" by (simp only: of_int_less_iff)
    then show ?thesis using m0 by (simp add: field_simps)
  qed
  have "\<lfloor>round_to 53 q\<rfloor> = k"
    unfolding R using lo' hi' by (intro floor_unique) simp_all
  then show "\<lfloor>round_to 53 (real_of_int a / real_of_int t)\<rfloor> = a div t"
    by (simp add: q_def k_def)
  have "0 \<le> round_to 53 q" unfolding R using lo' k0 by linarith
  then show "0 \<le> round_to 53 (real_of_int a / real_of_int t)" by (simp add: q_def)
  have "q < 2048" using q1 by (simp add: pow2_numeral)
  with kq have "real_of_int k < real_of_int 2048" by simp
  then have "k < 2048" by (simp only: of_int_less_iff)
  then have "real_of_int k + 1 \<le> 2048" by linarith
  with hi' have "round_to 53 q < 2048" unfolding R by linarith
  then show "round_to 53 (real_of_int a / real_of_int t) < 2048" by (simp add: q_def)
qed

text \<open>The cast to \<^verbatim>\<open>float\<close> of a positive count of fewer than 42 bits is a whole number
  above half the count.\<close>

lemma float_of_int_whole:
  assumes "0 < t" and "t < 2 ^ 42"
  shows "\<exists>ti. float_of_int t = of_int ti \<and> 0 < ti \<and> ti \<le> 2 ^ 42 \<and> t < 2 * ti"
proof (cases "t < 2 ^ 24")
  case True
  with assms(1) have "float_of_int t = of_int t"
    unfolding float_of_int_def by (intro round_to_int) simp
  with assms show ?thesis by (intro exI [of _ t]) simp
next
  case False
  define x where "x = real_of_int t"
  define e where "e = binade \<bar>x\<bar>"
  define U :: int where "U = 2 ^ nat (e - 23)"
  define r where "r = rne (x / real_of_int U)"
  have x0: "0 < x" using assms by (simp add: x_def)
  then have ax: "\<bar>x\<bar> = x" by simp
  from binade_bounds [OF x0]
  have lo: "pow2 e \<le> x" and hi: "x < pow2 (e + 1)" by (simp_all add: e_def ax)
  have "x < pow2 42" using assms(2) by (simp add: x_def pow2_numeral)
  with lo have "pow2 e < pow2 42" by simp
  then have e42: "e < 42" by (simp add: pow2_less_iff)
  have "pow2 24 \<le> x" using False by (simp add: x_def pow2_numeral)
  with hi have "pow2 24 < pow2 (e + 1)" by simp
  then have e24: "24 \<le> e" by (simp add: pow2_less_iff)
  have u: "pow2 (e - 23) = real_of_int U" using e24 pow2_int [of "e - 23"] by (simp add: U_def)
  have U0: "0 < U" by (simp add: U_def)
  have "float_of_int t = real_of_int (rne (x / pow2 (e - 23))) * pow2 (e - 23)"
    by (simp add: float_of_int_def round_to_def Let_def e_def x_def)
  then have R: "float_of_int t = real_of_int (r * U)"
    unfolding u r_def by simp
  have s23: "23 + (e - 23) = e" and s24: "24 + (e - 23) = e + 1" by simp_all
  have pe: "pow2 e = 2 ^ 23 * real_of_int U"
    using pow2_add [of 23 "e - 23"] unfolding s23 u by (simp add: pow2_numeral)
  have pe1: "pow2 (e + 1) = 2 ^ 24 * real_of_int U"
    using pow2_add [of 24 "e - 23"] unfolding s24 u by (simp add: pow2_numeral)
  have "real_of_int (2 ^ 23) \<le> x / real_of_int U"
    using lo U0 unfolding pe by (simp add: field_simps)
  then have "2 ^ 23 \<le> \<lfloor>x / real_of_int U\<rfloor>" by (simp only: le_floor_iff)
  with rne_ge_floor [of "x / real_of_int U"] have r_lo: "2 ^ 23 \<le> r"
    unfolding r_def by (rule order_trans [rotated])
  have "x / real_of_int U \<le> real_of_int (2 ^ 24)"
    using hi U0 unfolding pe1 by (simp add: field_simps)
  then have "\<lceil>x / real_of_int U\<rceil> \<le> 2 ^ 24" by (simp only: ceiling_le_iff)
  with rne_le_ceiling [of "x / real_of_int U"] have r_hi: "r \<le> 2 ^ 24"
    unfolding r_def by (rule order_trans)
  have "(2::int) ^ nat (e - 23) \<le> 2 ^ 18" using e42 by (intro power_increasing) simp_all
  then have U18: "U \<le> 2 ^ 18" by (simp add: U_def)
  have "r * U \<le> 2 ^ 24 * 2 ^ 18" using r_hi U18 U0 by (intro mult_mono) simp_all
  then have c1: "r * U \<le> 2 ^ 42" by simp
  have c2: "0 < r * U" using r_lo U0 by (intro mult_pos_pos) simp_all
  have "x < 2 ^ 24 * real_of_int U" using hi unfolding pe1 .
  then have "real_of_int t < real_of_int (2 ^ 24 * U)" by (simp add: x_def)
  then have "t < 2 ^ 24 * U" by (simp only: of_int_less_iff)
  moreover have "2 ^ 23 * U \<le> r * U" using r_lo U0 by (intro mult_right_mono) simp_all
  ultimately have c3: "t < 2 * (r * U)" by simp
  from R c1 c2 c3 show ?thesis by blast
qed

text \<open>Rounding keeps the sign and does not double a value.\<close>

lemma round_to_bounds:
  assumes "0 \<le> y"
  shows "0 \<le> round_to p y \<and> round_to p y \<le> 2 * y"
proof (cases "y = 0")
  case True
  then show ?thesis by (simp add: round_to_def rne_def)
next
  case False
  with assms have y0: "0 < y" by simp
  define e where "e = binade \<bar>y\<bar>"
  define u where "u = pow2 (e - int p + 1)"
  define r where "r = rne (y / u)"
  have ay: "\<bar>y\<bar> = y" using assms by simp
  from binade_bounds [OF y0]
  have lo: "pow2 e \<le> y" and hi: "y < pow2 (e + 1)" by (simp_all add: e_def ay)
  have u0: "0 < u" by (simp add: u_def pow2_pos)
  have R: "round_to p y = real_of_int r * u"
    by (simp add: round_to_def Let_def e_def u_def r_def)
  have "0 \<le> y / u" using assms u0 by simp
  then have "0 \<le> \<lfloor>y / u\<rfloor>" by simp
  with rne_ge_floor [of "y / u"] have r0: "0 \<le> r" unfolding r_def by (rule order_trans [rotated])
  have s: "e - int p + 1 + int p = e + 1" by simp
  have pe1: "pow2 (e + 1) = u * pow2 (int p)"
    using pow2_add [of "e - int p + 1" "int p"] unfolding s u_def .
  have pp: "pow2 (int p) = real_of_int (2 ^ p)" using pow2_int [of "int p"] by simp
  have "y / u \<le> real_of_int (2 ^ p)"
    using hi u0 unfolding pe1 pp by (simp add: field_simps)
  then have "\<lceil>y / u\<rceil> \<le> 2 ^ p" by (simp only: ceiling_le_iff)
  with rne_le_ceiling [of "y / u"] have "r \<le> 2 ^ p" unfolding r_def by (rule order_trans)
  then have "real_of_int r \<le> real_of_int (2 ^ p)" by (simp only: of_int_le_iff)
  then have "real_of_int r * u \<le> real_of_int (2 ^ p) * u"
    using u0 by (intro mult_right_mono) simp_all
  also have "\<dots> = pow2 (e + 1)" unfolding pe1 pp by simp
  also have "\<dots> = 2 * pow2 e" using pow2_add [of e 1] by (simp add: pow2_numeral)
  also have "\<dots> \<le> 2 * y" using lo by simp
  finally have "real_of_int r * u \<le> 2 * y" .
  moreover have "0 \<le> real_of_int r * u" using r0 u0 by simp
  ultimately show ?thesis unfolding R by simp
qed

subsection \<open>Percentage comparisons\<close>

lemma int_of_double_floor: "0 \<le> x \<Longrightarrow> x < 2 ^ 31 \<Longrightarrow> int_of_double x = \<lfloor>x\<rfloor>"
  by (simp add: int_of_double_def)

lemma load_product_floor:
  assumes "0 \<le> x" and "x < 10 ^ 8"
  shows "int_of_double (double_mul x 10) = \<lfloor>double_mul x 10\<rfloor>"
proof -
  from assms(1) have "0 \<le> x * 10" by simp
  from round_to_bounds [OF this, of 53]
  have "0 \<le> double_mul x 10" and "double_mul x 10 \<le> 2 * (x * 10)"
    by (simp_all add: double_mul_def)
  moreover have "2 * (x * 10) < 2 ^ 31" using assms(2) by simp
  ultimately show ?thesis by (intro int_of_double_floor) simp_all
qed

lemma float_of_int_exact: "\<bar>n\<bar> < 2 ^ 24 \<Longrightarrow> float_of_int n = of_int n"
  unfolding float_of_int_def by (rule round_to_int)

lemma usage_permille_div:
  assumes "0 \<le> n_free" and "n_free \<le> n_total" and "0 < n_total" and "n_total < 2 ^ 42"
  shows "usage_permille n_total n_free = (1000 * (n_total - n_free)) div \<lfloor>float_of_int n_total\<rfloor>"
proof -
  define used where "used = n_total - n_free"
  have used: "0 \<le> used" "used \<le> n_total" using assms by (simp_all add: used_def)
  from float_of_int_whole [OF assms(3,4)]
  obtain ti where ti: "float_of_int n_total = real_of_int ti" "0 < ti" "ti \<le> 2 ^ 42"
    "n_total < 2 * ti" by blast
  have "\<bar>used\<bar> < 2 ^ 53" using used assms(4) by simp
  then have d: "double_of_int used = real_of_int used"
    unfolding double_of_int_def by (rule round_to_int)
  have "\<bar>1000 * used\<bar> < 2 ^ 53" using used assms(4) by simp
  then have "round_to 53 (real_of_int (1000 * used)) = real_of_int (1000 * used)"
    by (rule round_to_int)
  then have m: "double_mul 1000 (double_of_int used) = real_of_int (1000 * used)"
    by (simp add: double_mul_def d)
  have a: "0 \<le> 1000 * used" "1000 * used < 2048 * ti" using used ti(4) by simp_all
  note q = round_to_quotient [OF a(1) ti(2) ti(3) a(2)]
  have "usage_permille n_total n_free
      = int_of_double (round_to 53 (real_of_int (1000 * used) / real_of_int ti))"
    by (simp only: usage_permille_def used_def [symmetric] m ti(1) double_div_def)
  also have "\<dots> = \<lfloor>round_to 53 (real_of_int (1000 * used) / real_of_int ti)\<rfloor>"
    using q(2,3) by (intro int_of_double_floor) simp_all
  also have "\<dots> = (1000 * used) div ti" by (rule q(1))
  finally show ?thesis by (simp add: ti(1) used_def)
qed

lemma load_events:
  assumes "load_value si (resource_id r) = Some x"
  shows "map (\<lambda>e. (ev_id e, ev_state e)) (check_process_resources H si s r)
     = [(Event_Resource,
         if Util_evalQExpression (res_operator r) (int_of_double (double_mul x 10)) (res_limit r)
         then STATE_FAILED else STATE_SUCCEEDED)]"
  using assms
  by (cases "resource_id r")
     (simp_all add: load_value_def check_process_resources_def resource_switch_def
        load_test_def limit_test_def Event_post_def Let_def)

lemma percent_events:
  assumes "percent_value si s (resource_id r) = Some v"
    and "\<not> resource_skipped H si s (resource_id r)"
  shows "map (\<lambda>e. (ev_id e, ev_state e)) (check_process_resources H si s r)
     = [(Event_Resource,
         if Util_evalQExpression (res_operator r) v (res_limit r)
         then STATE_FAILED else STATE_SUCCEEDED)]"
  using assms
  by (cases "resource_id r")
     (auto simp: percent_value_def resource_skipped_def check_process_resources_def
        resource_switch_def percent_test_def limit_test_def Event_post_def Let_def)

lemma filesystem_totals_fields:
  "f_files (filesystem_totals fi) = f_files fi"
  "f_filesfree (filesystem_totals fi) = f_filesfree fi"
  "f_blocks (filesystem_totals fi) = f_blocks fi"
  "f_blocksfree (filesystem_totals fi) = f_blocksfree fi"
  "inode_percent (filesystem_totals fi)
     = (if 0 < f_files fi then usage_permille (f_files fi) (f_filesfree fi) else 0)"
  "space_percent (filesystem_totals fi)
     = (if 0 < f_blocks fi then usage_permille (f_blocks fi) (f_blocksfree fi) else 0)"
  by (simp_all add: filesystem_totals_def)

lemma check_filesystem_percent:
  assumes "check_filesystem H env s = (True, s1, evs)" and "fi = priv_filesystem (inf s1)"
  shows "inode_percent fi
       = (if 0 < f_files fi then usage_permille (f_files fi) (f_filesfree fi) else 0)"
    and "space_percent fi
       = (if 0 < f_blocks fi then usage_permille (f_blocks fi) (f_blocksfree fi) else 0)"
proof -
  from assms have "\<exists>fi0. fi = filesystem_totals fi0"
    by (auto simp: check_filesystem_def Let_def split: sum.splits option.splits prod.splits)
  then obtain fi0 where fi: "fi = filesystem_totals fi0" ..
  show "inode_percent fi
       = (if 0 < f_files fi then usage_permille (f_files fi) (f_filesfree fi) else 0)"
    unfolding fi by (simp only: filesystem_totals_fields)
  show "space_percent fi
       = (if 0 < f_blocks fi then usage_permille (f_blocks fi) (f_blocksfree fi) else 0)"
    unfolding fi by (simp only: filesystem_totals_fields)
qed

lemma filesystem_percent_events:
  assumes "0 \<le> fs_limit_percent td"
  shows "fs_resource td = RESOURCE_ID_INODE \<Longrightarrow> 0 < f_files (priv_filesystem (inf s)) \<Longrightarrow>
      map (\<lambda>e. (ev_id e, ev_state e)) (check_filesystem_resources H s td)
      = [(Event_Resource,
          if Util_evalQExpression (fs_operator td) (inode_percent (priv_filesystem (inf s)))
               (fs_limit_percent td)
          then STATE_FAILED else STATE_SUCCEEDED)]"
    and "fs_resource td = RESOURCE_ID_SPACE \<Longrightarrow>
      map (\<lambda>e. (ev_id e, ev_state e)) (check_filesystem_resources H s td)
      = [(Event_Resource,
          if Util_evalQExpression (fs_operator td) (space_percent (priv_filesystem (inf s)))
               (fs_limit_percent td)
          then STATE_FAILED else STATE_SUCCEEDED)]"
  using assms
  by (simp_all add: check_filesystem_resources_def Let_def Event_post_def)

text \<open>
  C3 (amended). Every percentage comparison of the evaluators is a call of the
  quantitative expression evaluator on integers scaled by 10. For a load average \<open>x\<close>
  the measured value is the \<^verbatim>\<open>double\<close> product \<open>x * 10.0\<close> cast to \<^verbatim>\<open>int\<close>; for a load from
  0 to \<open>10 ^ 8\<close> that is the product with its fraction discarded, not the nearest integer.
  The percentages of the process and system snapshot are compared as they are stored. The
  \<^verbatim>\<open>inode_percent\<close> and \<^verbatim>\<open>space_percent\<close> that \<^verbatim>\<open>check_filesystem\<close> computes for a positive
  total are \<^verbatim>\<open>(int)((1000.0 * (total - free)) / (float)total)\<close>, and these integers are what
  \<^verbatim>\<open>check_filesystem_resources\<close> compares with a percent limit. For
  \<open>0 \<le> free \<le> total < 2 ^ 42\<close> the value is \<open>1000 * (total - free)\<close> divided by the total as
  \<^verbatim>\<open>float\<close>, with the fraction discarded; a total below \<open>2 ^ 24\<close> is its own \<^verbatim>\<open>float\<close>.
\<close>

theorem percent_comparisons_truncated:
  "(load_value si (resource_id r) = Some x \<longrightarrow>
      map (\<lambda>e. (ev_id e, ev_state e)) (check_process_resources H si s r)
      = [(Event_Resource,
          if Util_evalQExpression (res_operator r) (int_of_double (double_mul x 10))
               (res_limit r)
          then STATE_FAILED else STATE_SUCCEEDED)])
   \<and> (0 \<le> x \<and> x < 10 ^ 8 \<longrightarrow> int_of_double (double_mul x 10) = \<lfloor>double_mul x 10\<rfloor>)
   \<and> (percent_value si s (resource_id r) = Some v
        \<and> \<not> resource_skipped H si s (resource_id r) \<longrightarrow>
      map (\<lambda>e. (ev_id e, ev_state e)) (check_process_resources H si s r)
      = [(Event_Resource,
          if Util_evalQExpression (res_operator r) v (res_limit r)
          then STATE_FAILED else STATE_SUCCEEDED)])
   \<and> (check_filesystem H env fs = (True, fs1, evs) \<and> fi = priv_filesystem (inf fs1) \<longrightarrow>
      inode_percent fi
        = (if 0 < f_files fi then usage_permille (f_files fi) (f_filesfree fi) else 0)
      \<and> space_percent fi
        = (if 0 < f_blocks fi then usage_permille (f_blocks fi) (f_blocksfree fi) else 0))
   \<and> (0 \<le> n_free \<and> n_free \<le> n_total \<and> 0 < n_total \<and> n_total < 2 ^ 42 \<longrightarrow>
      usage_permille n_total n_free = (1000 * (n_total - n_free)) div \<lfloor>float_of_int n_total\<rfloor>)
   \<and> (\<bar>n_total\<bar> < 2 ^ 24 \<longrightarrow> float_of_int n_total = of_int n_total)
   \<and> (0 \<le> fs_limit_percent td \<and> fs_resource td = RESOURCE_ID_INODE
        \<and> 0 < f_files (priv_filesystem (inf fs1)) \<longrightarrow>
      map (\<lambda>e. (ev_id e, ev_state e)) (check_filesystem_resources H fs1 td)
      = [(Event_Resource,
          if Util_evalQExpression (fs_operator td) (inode_percent (priv_filesystem (inf fs1)))
               (fs_limit_percent td)
          then STATE_FAILED else STATE_SUCCEEDED)])
   \<and> (0 \<le> fs_limit_percent td \<and> fs_resource td = RESOURCE_ID_SPACE \<longrightarrow>
      map (\<lambda>e. (ev_id e, ev_state e)) (check_filesystem_resources H fs1 td)
      = [(Event_Resource,
          if Util_evalQExpression (fs_operator td) (space_percent (priv_filesystem (inf fs1)))
               (fs_limit_percent td)
          then STATE_FAILED else STATE_SUCCEEDED)])"
  using load_events [of si r x H s] load_product_floor [of x] percent_events [of si s r v H]
    check_filesystem_percent [of H env fs fs1 evs fi]
    usage_permille_div [of n_free n_total] float_of_int_exact [of n_total]
    filesystem_percent_events [where td = td and s = fs1 and H = H]
  by blast

theorem percent_comparisons_truncated_witness:
  "map (\<lambda>e. (ev_id e, ev_state e))
      (check_process_resources example_H example_systeminfo example_service example_load_rule)
     = [(Event_Resource, STATE_SUCCEEDED)]
   \<and> int_of_double (double_mul (3 / 16) 10) = 1
   \<and> map (\<lambda>e. (ev_id e, ev_state e))
      (check_process_resources example_H example_systeminfo
         (example_service\<lparr>type_s := TYPE_SYSTEM\<rparr>) example_mem_rule)
     = [(Event_Resource, STATE_FAILED)]
   \<and> inode_percent (priv_filesystem (inf (fst (snd
        (check_filesystem example_H example_filesystem_probe example_service))))) = 666
   \<and> space_percent (priv_filesystem (inf (fst (snd
        (check_filesystem example_H example_filesystem_probe example_service))))) = 625
   \<and> usage_permille 3 1 = 666
   \<and> usage_permille 16777217 8388609 = 500
   \<and> float_of_int 3 = 3
   \<and> map (\<lambda>e. (ev_id e, ev_state e))
      (check_filesystem_resources example_H
         (fst (snd (check_filesystem example_H example_filesystem_probe example_service)))
         example_inode_rule)
     = [(Event_Resource, STATE_SUCCEEDED)]
   \<and> map (\<lambda>e. (ev_id e, ev_state e))
      (check_filesystem_resources example_H
         (fst (snd (check_filesystem example_H example_filesystem_probe example_service)))
         example_space_rule)
     = [(Event_Resource, STATE_FAILED)]"
proof -
  let ?fs1 = "fst (snd (check_filesystem example_H example_filesystem_probe example_service))"
  let ?evs = "snd (snd (check_filesystem example_H example_filesystem_probe example_service))"
  have cf: "check_filesystem example_H example_filesystem_probe example_service
      = (True, ?fs1, ?evs)"
    by (simp add: check_filesystem_def resolve_filesystem_def example_filesystem_probe_def
        S_ISLNK_def Let_def)
  have fi: "priv_filesystem (inf ?fs1) = filesystem_totals example_filesystem_info"
    by (simp add: check_filesystem_def resolve_filesystem_def example_filesystem_probe_def
        S_ISLNK_def Let_def)
  have fields: "f_files (filesystem_totals example_filesystem_info) = 3"
    "f_filesfree (filesystem_totals example_filesystem_info) = 1"
    "f_blocks (filesystem_totals example_filesystem_info) = 8"
    "f_blocksfree (filesystem_totals example_filesystem_info) = 3"
    by (simp_all add: filesystem_totals_def example_filesystem_info_def)
  have fl: "float_of_int 3 = 3" "float_of_int 8 = 8" "float_of_int 16777217 = 16777216"
    by (simp_all add: float_of_int_def round_to_def binade.simps pow2_def rne_def Let_def)
  have dm: "double_mul (3 / 16) 10 = 15 / 8"
    by (simp add: double_mul_def round_to_def binade.simps pow2_def rne_def Let_def)
  from percent_comparisons_truncated [where si = example_systeminfo and r = example_load_rule
      and x = "3 / 16" and H = example_H and s = example_service and v = 0
      and env = example_filesystem_probe and fs = example_service and ?fs1.0 = ?fs1
      and evs = ?evs and fi = "filesystem_totals example_filesystem_info"
      and n_free = 1 and n_total = 3 and td = example_inode_rule]
  have a: "map (\<lambda>e. (ev_id e, ev_state e))
      (check_process_resources example_H example_systeminfo example_service example_load_rule)
     = [(Event_Resource, STATE_SUCCEEDED)]
     \<and> int_of_double (double_mul (3 / 16) 10) = 1
     \<and> inode_percent (priv_filesystem (inf ?fs1)) = 666
     \<and> usage_permille 3 1 = 666
     \<and> float_of_int 3 = 3
     \<and> map (\<lambda>e. (ev_id e, ev_state e)) (check_filesystem_resources example_H ?fs1 example_inode_rule)
       = [(Event_Resource, STATE_SUCCEEDED)]"
    using cf by (simp add: fi fields fl dm load_value_def example_load_rule_def
        example_systeminfo_def example_inode_rule_def)
  from percent_comparisons_truncated [where si = example_systeminfo and r = example_mem_rule
      and x = 0 and H = example_H and s = "example_service\<lparr>type_s := TYPE_SYSTEM\<rparr>"
      and v = 500 and env = example_filesystem_probe and fs = example_service
      and ?fs1.0 = ?fs1 and evs = ?evs and fi = "filesystem_totals example_filesystem_info"
      and n_free = 3 and n_total = 8 and td = example_space_rule]
  have b: "map (\<lambda>e. (ev_id e, ev_state e))
      (check_process_resources example_H example_systeminfo
         (example_service\<lparr>type_s := TYPE_SYSTEM\<rparr>) example_mem_rule)
     = [(Event_Resource, STATE_FAILED)]
     \<and> space_percent (priv_filesystem (inf ?fs1)) = 625
     \<and> map (\<lambda>e. (ev_id e, ev_state e)) (check_filesystem_resources example_H ?fs1 example_space_rule)
       = [(Event_Resource, STATE_FAILED)]"
    using cf by (simp add: fi fields fl percent_value_def resource_skipped_def
        example_mem_rule_def example_systeminfo_def example_space_rule_def)
  from percent_comparisons_truncated [where n_free = 8388609 and n_total = 16777217]
  have c: "usage_permille 16777217 8388609 = 500"
    by (simp add: fl)
  from a b c show ?thesis by simp
qed

text \<open>
  The claim as stated fails: the measured value is not \<open>round (x * 10)\<close>. With the load
  average 0.1875 and the rule \<open>loadavg(1min) \<ge> 0.2\<close> (limit 2), the rounded value 2 would
  match the rule, but the code compares 1 and posts \<^verbatim>\<open>SUCCEEDED\<close>; with 2 of 3 inodes in use
  \<^verbatim>\<open>inode_percent\<close> is 666, not 667.
\<close>

theorem percent_rounding_counterexample:
  "loadavg example_systeminfo 0 = 3 / 16
   \<and> round (loadavg example_systeminfo 0 * 10) = 2
   \<and> Util_evalQExpression (res_operator example_load_rule)
         (round (loadavg example_systeminfo 0 * 10)) (res_limit example_load_rule)
   \<and> map ev_state
         (check_process_resources example_H example_systeminfo example_service example_load_rule)
       = [STATE_SUCCEEDED]
   \<and> inode_percent (filesystem_totals example_filesystem_info) = 666
   \<and> round (1000 * real_of_int (3 - 1) / real_of_int 3) = 667"
  by (simp add: example_systeminfo_def example_load_rule_def check_process_resources_def
      resource_switch_def load_test_def limit_test_def int_of_double_def Event_post_def
      filesystem_totals_def example_filesystem_info_def round_def Let_def
      usage_permille_def double_mul_def double_div_def double_of_int_def float_of_int_def
      round_to_def binade.simps pow2_def rne_def)

subsection \<open>check_match\<close>

lemma fgets_bytes_full:
  "length front = n \<Longrightarrow> newline \<notin> set front \<Longrightarrow> fgets_bytes n (front @ back) = front"
proof (induction front arbitrary: n)
  case Nil
  then show ?case by simp
next
  case (Cons c front)
  then obtain m where "n = Suc m" and "length front = m" by auto
  with Cons show ?case by auto
qed

lemma c_string_no_NUL: "NUL \<notin> set cs \<Longrightarrow> c_string cs = cs"
  by (auto simp: c_string_def takeWhile_eq_all_conv)

lemma skip_to_newline_found:
  "newline \<notin> set over \<Longrightarrow>
     skip_to_newline (over @ newline # after) len = Some (len + length over + 1)"
  by (induction over arbitrary: len) auto

lemma skip_to_newline_eof:
  "newline \<notin> set cs \<Longrightarrow> skip_to_newline cs len = None"
  by (induction cs arbitrary: len) auto

lemma read_line_oversize:
  assumes "0 \<le> pos" and "\<not> fseek_fails f pos" and "\<not> fgets_fails f pos"
    and "drop (nat pos) (file_bytes f) = front @ back"
    and "length front = MATCH_LINE_LENGTH - 1"
    and "newline \<notin> set front" and "NUL \<notin> set front"
  shows "read_line f pos =
     (case skip_to_newline back (MATCH_LINE_LENGTH - 1) of
        None \<Rightarrow> None | Some len \<Rightarrow> Some (len, front))"
proof -
  have len: "length front = 511" using assms(5) by (simp add: MATCH_LINE_LENGTH_def)
  have buf: "fgets_bytes 511 (front @ back) = front"
    using len assms(6) by (rule fgets_bytes_full)
  have cs: "c_string front = front" using assms(7) by (rule c_string_no_NUL)
  have ne: "front \<noteq> []" using len by auto
  then have "last front \<in> set front" by simp
  with assms(6) have last: "last front \<noteq> newline" by auto
  show ?thesis
    using assms(1,2,3) ne last
    by (simp add: read_line_def assms(4) MATCH_LINE_LENGTH_def buf cs len Let_def)
qed

lemma check_match_loop_stop:
  "read_line f pos = None \<Longrightarrow> check_match_loop cp f ign pos mls = (pos, mls)"
  by (subst check_match_loop.simps) simp

lemma check_match_loop_step:
  "read_line f pos = Some (len, line) \<Longrightarrow>
     check_match_loop cp f ign pos mls =
     check_match_loop cp f ign (pos + int len)
       (if list_ex (\<lambda>ml. pattern_hit cp ml line) ign then mls
        else map (\<lambda>ml. if pattern_hit cp ml line then log_line ml line else ml) mls)"
  by (subst check_match_loop.simps) simp

text \<open>
  C4 (amended). In \<^verbatim>\<open>check_match\<close>, when the line read at the read position has no
  trailing newline and its length is \<^verbatim>\<open>MATCH_LINE_LENGTH - 1\<close> (511 bytes, none of them
  NUL): if a newline follows, the evaluator consumes the bytes up to and including that
  newline, counts each of them into the length and discards them (the line that is
  matched is the first 511 bytes), advances the read position by the total length and
  goes on with the next line; if the end of the file comes first, it leaves the loop and
  the read position stays where it was.
\<close>

theorem check_match_oversize_line:
  assumes "0 \<le> pos" and "\<not> fseek_fails f pos" and "\<not> fgets_fails f pos"
    and "drop (nat pos) (file_bytes f) = front @ back"
    and "length front = MATCH_LINE_LENGTH - 1"
    and "newline \<notin> set front" and "NUL \<notin> set front"
  shows "(back = over @ newline # after \<and> newline \<notin> set over \<longrightarrow>
            read_line f pos = Some (MATCH_LINE_LENGTH - 1 + length over + 1, front)
            \<and> check_match_loop cp f ign pos mls =
                check_match_loop cp f ign
                  (pos + int (MATCH_LINE_LENGTH - 1 + length over + 1))
                  (if list_ex (\<lambda>ml. pattern_hit cp ml front) ign then mls
                   else map (\<lambda>ml. if pattern_hit cp ml front then log_line ml front else ml)
                          mls))
       \<and> (newline \<notin> set back \<longrightarrow>
            read_line f pos = None \<and> check_match_loop cp f ign pos mls = (pos, mls))"
proof (intro conjI impI)
  note r = read_line_oversize [OF assms]
  {
    assume b: "back = over @ newline # after \<and> newline \<notin> set over"
    then have sk: "skip_to_newline back (MATCH_LINE_LENGTH - 1)
        = Some (MATCH_LINE_LENGTH - 1 + length over + 1)"
      using skip_to_newline_found [of over after "MATCH_LINE_LENGTH - 1"] by simp
    show rl: "read_line f pos = Some (MATCH_LINE_LENGTH - 1 + length over + 1, front)"
      unfolding r sk by simp
    show "check_match_loop cp f ign pos mls =
                check_match_loop cp f ign
                  (pos + int (MATCH_LINE_LENGTH - 1 + length over + 1))
                  (if list_ex (\<lambda>ml. pattern_hit cp ml front) ign then mls
                   else map (\<lambda>ml. if pattern_hit cp ml front then log_line ml front else ml)
                          mls)"
      using rl by (rule check_match_loop_step)
  }
  {
    assume "newline \<notin> set back"
    then have sk: "skip_to_newline back (MATCH_LINE_LENGTH - 1) = None"
      by (rule skip_to_newline_eof)
    show rl: "read_line f pos = None"
      unfolding r sk by simp
    show "check_match_loop cp f ign pos mls = (pos, mls)"
      using rl by (rule check_match_loop_stop)
  }
qed

theorem check_match_oversize_line_witness:
  "read_line example_long_line 0 = Some (600, replicate 511 CHR ''a'')
   \<and> read_line example_long_file 0 = None"
proof -
  have split1: "replicate 599 CHR ''a'' @ [newline]
      = replicate 511 CHR ''a'' @ (replicate 88 CHR ''a'' @ newline # [])"
    by (simp add: replicate_add [symmetric])
  have split2: "replicate 600 CHR ''a'' = replicate 511 CHR ''a'' @ replicate 89 CHR ''a''"
    by (simp add: replicate_add [symmetric])
  have nl: "newline \<noteq> CHR ''a''" and nul: "NUL \<noteq> CHR ''a''"
    by (simp_all add: newline_def NUL_def)
  from check_match_oversize_line [of 0 example_long_line "replicate 511 CHR ''a''"
      "replicate 88 CHR ''a'' @ newline # []" "replicate 88 CHR ''a''" "[]"
      "\<lambda>ml line. 0" "[]" "[]"]
  have a: "read_line example_long_line 0 = Some (600, replicate 511 CHR ''a'')"
    using split1 nl nul by (simp add: example_long_line_def example_long_file_def
        MATCH_LINE_LENGTH_def)
  from check_match_oversize_line [of 0 example_long_file "replicate 511 CHR ''a''"
      "replicate 89 CHR ''a''" "[]" "[]" "\<lambda>ml line. 0" "[]" "[]"]
  have b: "read_line example_long_file 0 = None"
    using split2 nl nul by (simp add: example_long_file_def MATCH_LINE_LENGTH_def)
  from a b show ?thesis by simp
qed

text \<open>
  The claim as stated fails when the end of the file comes before a newline: for a file
  of 600 bytes without a newline the read position is not advanced by 600, it stays 0.
\<close>

theorem check_match_eof_counterexample:
  "file_bytes example_long_file = replicate 600 CHR ''a''
   \<and> readpos (priv_file (inf example_log_service)) = 0
   \<and> readpos (priv_file (inf (fst (check_match match_every_line example_long_file
        example_log_service)))) = 0"
proof -
  have split2: "replicate 600 CHR ''a'' = replicate 511 CHR ''a'' @ replicate 89 CHR ''a''"
    by (simp add: replicate_add [symmetric])
  have nl: "newline \<noteq> CHR ''a''" and nul: "NUL \<noteq> CHR ''a''"
    by (simp_all add: newline_def NUL_def)
  have "read_line example_long_file 0
      = (case skip_to_newline (replicate 89 CHR ''a'') (MATCH_LINE_LENGTH - 1) of
           None \<Rightarrow> None | Some len \<Rightarrow> Some (len, replicate 511 CHR ''a''))"
    using split2 nl nul
    by (intro read_line_oversize) (simp_all add: example_long_file_def MATCH_LINE_LENGTH_def)
  moreover have "skip_to_newline (replicate 89 CHR ''a'') (MATCH_LINE_LENGTH - 1) = None"
    using nl by (intro skip_to_newline_eof) simp
  ultimately have "read_line example_long_file 0 = None" by simp
  then have "check_match_loop match_every_line example_long_file [] 0 [example_match]
      = (0, [example_match])"
    by (rule check_match_loop_stop)
  then show ?thesis
    by (simp add: check_match_def example_log_service_def example_service_def
        example_info_def example_long_file_def Str_startsWith_def Let_def)
qed

subsection \<open>check_checksum\<close>

lemma snprintf_s_fits: "length src < n \<Longrightarrow> snprintf_s n src = src"
  by (simp add: snprintf_s_def)

text \<open>
  C5. A file service with an MD5 or SHA1 checksum descriptor, when \<^verbatim>\<open>Util_getChecksum\<close>
  succeeds with a hash that fits the buffer of the descriptor. The expected value is the
  stored hash, or on the first pass (descriptor not initialized) the computed hash, which
  is then stored. The comparison is on the first 32 (MD5) or 40 (SHA1) characters. If the
  hash differs: with \<^verbatim>\<open>test_changes\<close> the event is \<^verbatim>\<open>Checksum CHANGED\<close> and the computed
  hash becomes the expected value, without it the event is \<^verbatim>\<open>Checksum FAILED\<close>. If it does
  not differ: with \<^verbatim>\<open>test_changes\<close> the event is \<^verbatim>\<open>Checksum CHANGEDNOT\<close>, without it
  \<^verbatim>\<open>Checksum SUCCEEDED\<close>. The event follows the \<^verbatim>\<open>Data SUCCEEDED\<close> event of the probe.
\<close>

theorem check_checksum_outcomes:
  assumes "cs_type cs = HASH_MD5 \<or> cs_type cs = HASH_SHA1"
    and "length h < sizeof_hash H"
    and "expected = (if cs_initialized cs then cs_hash cs else h)"
    and "changed = (take (compared_length (cs_type cs)) expected
                      \<noteq> take (compared_length (cs_type cs)) h)"
  shows "map (\<lambda>e. (ev_id e, ev_state e, ev_action e)) (snd (check_checksum H (Some h) s cs))
       = [(Event_Data, STATE_SUCCEEDED, action_DATA s),
          (Event_Checksum, checksum_state changed (cs_test_changes cs), cs_action cs)]
     \<and> checksum (fst (check_checksum H (Some h) s cs))
       = Some (cs\<lparr>cs_initialized := True,
                   cs_hash := (if changed \<and> cs_test_changes cs then h else expected)\<rparr>)
     \<and> cs_sum (priv_file (inf (fst (check_checksum H (Some h) s cs)))) = h"
  using assms
  by (auto simp: check_checksum_def check_checksum_changed_def Let_def snprintf_s_fits
      strncmp_differs_def compared_length_def checksum_state_def split_def Event_post_def)

theorem check_checksum_outcomes_witness:
  "map (\<lambda>e. (ev_id e, ev_state e, ev_action e))
       (snd (check_checksum example_H (Some example_md5_b) example_file example_checksum))
     = [(Event_Data, STATE_SUCCEEDED, example_action),
        (Event_Checksum, STATE_CHANGED, example_action)]
   \<and> checksum (fst (check_checksum example_H (Some example_md5_b) example_file example_checksum))
     = Some (example_checksum\<lparr>cs_hash := example_md5_b\<rparr>)
   \<and> map (\<lambda>e. (ev_id e, ev_state e, ev_action e))
       (snd (check_checksum example_H (Some example_md5_a) example_file
          (example_checksum\<lparr>cs_initialized := False, cs_hash := [], cs_test_changes := False\<rparr>)))
     = [(Event_Data, STATE_SUCCEEDED, example_action),
        (Event_Checksum, STATE_SUCCEEDED, example_action)]"
  using check_checksum_outcomes [of example_checksum example_md5_b example_H
      example_md5_a True example_file]
    check_checksum_outcomes [of "example_checksum\<lparr>cs_initialized := False, cs_hash := [],
      cs_test_changes := False\<rparr>" example_md5_a example_H example_md5_a False example_file]
  by (simp add: example_checksum_def example_md5_a_def example_md5_b_def example_H_def
      compared_length_def checksum_state_def example_file_def example_service_def)

subsection \<open>check_size and check_timestamp\<close>

lemma check_size_list_prefix:
  assumes "\<forall>x\<in>set pre. \<not> sz_test_changes x"
  shows "check_size_list s (pre @ rest)
     = (pre @ fst (check_size_list s rest),
        map (size_value_event s) pre @ snd (check_size_list s rest))"
  using assms
  by (induction pre) (simp_all add: split_def size_value_event_def)

lemma check_timestamp_list_prefix:
  assumes "\<forall>x\<in>set pre. \<not> ts_test_changes x"
  shows "check_timestamp_list s now (pre @ rest)
     = (pre @ fst (check_timestamp_list s now rest),
        map (timestamp_value_event s now) pre @ snd (check_timestamp_list s now rest))"
  using assms
  by (induction pre) (simp_all add: split_def timestamp_value_event_def)

text \<open>
  C9 (amended). In \<^verbatim>\<open>check_size\<close>, and in \<^verbatim>\<open>check_timestamp\<close> when the system time is
  obtained, the descriptors before the first one with \<^verbatim>\<open>test_changes\<close> are compared with
  their constant value (one \<^verbatim>\<open>FAILED\<close> or \<^verbatim>\<open>SUCCEEDED\<close> event each); the first descriptor
  with \<^verbatim>\<open>test_changes\<close> is evaluated and gets the current sample as its stored value; the
  descriptors after it are not evaluated, are left as they are and post no event. For
  that first descriptor \<^verbatim>\<open>check_timestamp\<close> posts \<^verbatim>\<open>CHANGED\<close> when the stored timestamp
  differs and \<^verbatim>\<open>CHANGEDNOT\<close> otherwise; \<^verbatim>\<open>check_size\<close> does the same when the descriptor
  is initialized, and when it is not, it initializes the descriptor and posts no event.
  The statement about \<^verbatim>\<open>check_size\<close> and the one about \<^verbatim>\<open>check_timestamp\<close> each hold for
  any service whose list of that kind has a descriptor with \<^verbatim>\<open>test_changes\<close>.
\<close>

theorem check_size_timestamp_stop:
  "(sizelist s = pre @ sl # post \<and> (\<forall>x\<in>set pre. \<not> sz_test_changes x)
      \<and> sz_test_changes sl \<longrightarrow>
      sizelist (fst (check_size s))
        = pre @ sl\<lparr>sz_initialized := True, sz_size := st_size (priv_file (inf s))\<rparr> # post
      \<and> snd (check_size s)
        = map (size_value_event s) pre
          @ (if \<not> sz_initialized sl then []
             else if sz_size sl \<noteq> st_size (priv_file (inf s))
             then [Event_post Event_Size STATE_CHANGED (sz_action sl)
                     (Str ''size was changed for %s'') [Str (path s)]]
             else [Event_post Event_Size STATE_CHANGEDNOT (sz_action sl)
                     (Str ''size was not changed'') [Str (path s)]]))
   \<and> (timestamplist d = tpre @ t # tpost \<and> (\<forall>x\<in>set tpre. \<not> ts_test_changes x)
      \<and> ts_test_changes t \<and> int_cast now \<noteq> - 1 \<longrightarrow>
      timestamplist (fst (check_timestamp now d))
        = tpre @ t\<lparr>ts_timestamp := timestamp (inf d)\<rparr> # tpost
      \<and> snd (check_timestamp now d)
        = Event_post Event_Data STATE_SUCCEEDED (action_DATA d)
            (Str ''actual system time obtained'') []
          # map (timestamp_value_event d now) tpre
          @ [if ts_timestamp t \<noteq> timestamp (inf d)
             then Event_post Event_Timestamp STATE_CHANGED (ts_action t)
                    (Str ''timestamp was changed for %s'') [Str (path d)]
             else Event_post Event_Timestamp STATE_CHANGEDNOT (ts_action t)
                    (Str ''timestamp was not changed for %s'') [Str (path d)]])"
proof (intro conjI impI)
  assume a: "sizelist s = pre @ sl # post \<and> (\<forall>x\<in>set pre. \<not> sz_test_changes x)
      \<and> sz_test_changes sl"
  then have np: "\<forall>x\<in>set pre. \<not> sz_test_changes x" by simp
  note sz = check_size_list_prefix [OF np, of s "sl # post"]
  show "sizelist (fst (check_size s))
        = pre @ sl\<lparr>sz_initialized := True, sz_size := st_size (priv_file (inf s))\<rparr> # post"
    using a by (simp add: check_size_def sz split_def)
  show "snd (check_size s)
        = map (size_value_event s) pre
          @ (if \<not> sz_initialized sl then []
             else if sz_size sl \<noteq> st_size (priv_file (inf s))
             then [Event_post Event_Size STATE_CHANGED (sz_action sl)
                     (Str ''size was changed for %s'') [Str (path s)]]
             else [Event_post Event_Size STATE_CHANGEDNOT (sz_action sl)
                     (Str ''size was not changed'') [Str (path s)]])"
    using a by (simp add: check_size_def sz split_def)
next
  assume a: "timestamplist d = tpre @ t # tpost \<and> (\<forall>x\<in>set tpre. \<not> ts_test_changes x)
      \<and> ts_test_changes t \<and> int_cast now \<noteq> - 1"
  then have np: "\<forall>x\<in>set tpre. \<not> ts_test_changes x" by simp
  note ts = check_timestamp_list_prefix [OF np, of d now "t # tpost"]
  show "timestamplist (fst (check_timestamp now d))
        = tpre @ t\<lparr>ts_timestamp := timestamp (inf d)\<rparr> # tpost"
    using a by (simp add: check_timestamp_def ts split_def)
  show "snd (check_timestamp now d)
        = Event_post Event_Data STATE_SUCCEEDED (action_DATA d)
            (Str ''actual system time obtained'') []
          # map (timestamp_value_event d now) tpre
          @ [if ts_timestamp t \<noteq> timestamp (inf d)
             then Event_post Event_Timestamp STATE_CHANGED (ts_action t)
                    (Str ''timestamp was changed for %s'') [Str (path d)]
             else Event_post Event_Timestamp STATE_CHANGEDNOT (ts_action t)
                    (Str ''timestamp was not changed for %s'') [Str (path d)]]"
    using a by (simp add: check_timestamp_def ts split_def)
qed

theorem check_size_timestamp_stop_witness:
  "map ev_state (snd (check_size example_size_only)) = [STATE_FAILED, STATE_CHANGED]
   \<and> map sz_size (sizelist (fst (check_size example_size_only))) = [50, 100, 10]
   \<and> map ev_state (snd (check_timestamp 6000 example_directory))
       = [STATE_SUCCEEDED, STATE_SUCCEEDED, STATE_CHANGEDNOT]
   \<and> map ev_state (snd (check_timestamp (2 ^ 31 + 6000) example_directory))
       = [STATE_SUCCEEDED, STATE_SUCCEEDED, STATE_CHANGEDNOT]"
  using check_size_timestamp_stop [of example_size_only "[example_size_value]"
      example_size_changes "[example_size_value\<lparr>sz_operator := Operator_Less, sz_size := 10\<rparr>]"
      example_directory "[example_timestamp_value]" example_timestamp_changes
      "[example_timestamp_value\<lparr>ts_operator := Operator_Less\<rparr>]" 6000]
    check_size_timestamp_stop [of example_size_only "[example_size_value]"
      example_size_changes "[example_size_value\<lparr>sz_operator := Operator_Less, sz_size := 10\<rparr>]"
      example_directory "[example_timestamp_value]" example_timestamp_changes
      "[example_timestamp_value\<lparr>ts_operator := Operator_Less\<rparr>]" "2 ^ 31 + 6000"]
  by (simp add: example_size_only_def example_directory_def example_file_def
      example_size_value_def example_size_changes_def
      example_timestamp_value_def example_timestamp_changes_def example_info_def
      size_value_event_def timestamp_value_event_def Event_post_def int_cast_def)

text \<open>
  The claim as stated fails for \<^verbatim>\<open>check_size\<close>: a descriptor with \<^verbatim>\<open>test_changes\<close> that
  is not initialized, with the stored size 70 and a file of 100 bytes, gets the size 100
  and no event is posted, neither \<^verbatim>\<open>CHANGED\<close> nor \<^verbatim>\<open>CHANGEDNOT\<close>.
\<close>

theorem check_size_uninitialized_counterexample:
  "sz_test_changes (example_size_changes\<lparr>sz_initialized := False\<rparr>)
   \<and> sz_size (example_size_changes\<lparr>sz_initialized := False\<rparr>) = 70
   \<and> st_size (priv_file (inf example_file)) = 100
   \<and> snd (check_size (example_file\<lparr>sizelist := [example_size_changes\<lparr>sz_initialized := False\<rparr>]\<rparr>))
       = []
   \<and> map sz_size (sizelist (fst (check_size
         (example_file\<lparr>sizelist := [example_size_changes\<lparr>sz_initialized := False\<rparr>]\<rparr>)))) = [100]"
  by (simp add: check_size_def example_file_def example_size_changes_def example_info_def)

subsection \<open>check_timeout: the maximum\<close>





subsection \<open>check_timeout\<close>




end
